theory Spec2Isabelle
  imports Main "HOL-Library.Sublist"
begin

section \<open>Errors, shapes and operator descriptors\<close>

text \<open>
  The exceptions the generators can end in. \<open>InputDimTooHigh\<close> and \<open>InputDimTooLow\<close>
  are the two \<^verbatim>\<open>ValueError\<close>s of the constructors ("The input dimension is too
  high." / "... too low."), which the specification calls \<open>InvalidInputRank\<close>;
  \<open>WidthLengthMismatch\<close> is the \<^verbatim>\<open>ValueError\<close> of \<^verbatim>\<open>MlpGenerator.generate\<close>;
  \<open>IndexError\<close> is Python's, for a tuple or list read out of range;
  \<open>OverflowError\<close> is Python's, for a true division whose quotient is too large for a
  float and for a repetition count that does not fit an index; \<open>MemoryError\<close> is
  Python's, for a list too long to allocate;
  \<open>UnsupportedRank\<close> is the resolver's failure and \<open>ArityError\<close> an operator applied
  to the wrong number of predecessors.
\<close>

datatype error =
    InputDimTooHigh
  | InputDimTooLow
  | WidthLengthMismatch
  | UnsupportedRank
  | IndexError
  | OverflowError
  | MemoryError
  | ArityError

definition InvalidInputRank :: "error \<Rightarrow> bool" where
  "InvalidInputRank e = (e = InputDimTooHigh \<or> e = InputDimTooLow)"

type_synonym shape = "int list"

text \<open>The operator family a resolver lookup hands back: the 1-, 2- or 3-dimensional
  variant of a layer class.\<close>

datatype rank = Rank1d | Rank2d | Rank3d

text \<open>
  A dropout rate is one of the two constants of \<^verbatim>\<open>autokeras.constant.Constant\<close>
  (floating-point values, not under src/, kept symbolic) or a literal of the source.
\<close>

datatype rate = CONV_DROPOUT_RATE | MLP_DROPOUT_RATE | Rate int

text \<open>
  The layer stubs as the generators construct them; an argument the source leaves out is
  \<open>None\<close>. \<open>StubConv family input_channel filters kernel_size stride padding groups\<close>;
  \<open>StubPooling\<close> and \<open>StubAvgPooling\<close> carry \<open>kernel_size stride padding\<close>;
  \<open>StubDense input_units units\<close>.
\<close>

datatype layer =
    StubReLU
  | StubBatchNorm rank int
  | StubConv rank int int int "int option" "int option" "int option"
  | StubPooling rank "int option" "int option" "int option"
  | StubAvgPooling rank "int option" "int option" "int option"
  | StubGlobalPooling rank
  | StubDropout rank rate
  | StubDropout1d rate
  | StubDense int int
  | StubAdd
  | StubConcatenate

section \<open>The collaborators that are not under src/\<close>

text \<open>
  Modelled from the spec: the constants \<^verbatim>\<open>Constant.MODEL_LEN\<close> and
  \<^verbatim>\<open>Constant.MODEL_WIDTH\<close> of \<^verbatim>\<open>autokeras.constant\<close> are missing; the
  specification gives the defaults depth 2 and width 64.
\<close>

definition MODEL_LEN :: int where
  "MODEL_LEN = 2"

definition MODEL_WIDTH :: int where
  "MODEL_WIDTH = 64"

text \<open>
  Modelled from the spec: the lookups \<^verbatim>\<open>get_conv_class\<close>, \<^verbatim>\<open>get_dropout_class\<close>,
  \<^verbatim>\<open>get_global_avg_pooling_class\<close>, \<^verbatim>\<open>get_pooling_class\<close>,
  \<^verbatim>\<open>get_avg_pooling_class\<close> and \<^verbatim>\<open>get_batch_norm_class\<close> of
  \<^verbatim>\<open>autokeras.nn.layers\<close> are missing. The specification describes them as one
  resolver from a spatial rank 1, 2 or 3 to the family of constructors, failing with
  \<open>UnsupportedRank\<close> outside that set. A constructor calls them all with the same
  \<^verbatim>\<open>n_dim\<close>, so the model makes one lookup and keeps the family.
\<close>

definition resolve :: "int \<Rightarrow> error + rank" where
  "resolve n =
     (if n = 1 then Inr Rank1d
      else if n = 2 then Inr Rank2d
      else if n = 3 then Inr Rank3d
      else Inl UnsupportedRank)"

text \<open>
  The specification fixes how an operator acts on the channel dimension and on the rank
  of a shape, and says nothing on how a convolution or a pooling maps one spatial extent.
  That arithmetic is a parameter of the model: \<open>conv_extent R kernel_size stride padding d\<close>
  and \<open>pool_extent R kernel_size stride padding d\<close> are the extents that come out of an
  extent \<open>d\<close>.
\<close>

record shape_rules =
  conv_extent :: "int \<Rightarrow> int option \<Rightarrow> int option \<Rightarrow> int \<Rightarrow> int"
  pool_extent :: "int option \<Rightarrow> int option \<Rightarrow> int option \<Rightarrow> int \<Rightarrow> int"

text \<open>
  Modelled from the spec: the \<^verbatim>\<open>output_shape\<close> of the layer stubs
  (\<^verbatim>\<open>autokeras.nn.layers\<close>) is missing. From the specification: a shape is
  (spatial dims..., channel count); activation, normalization and dropout keep the shape;
  a convolution's output channels are its filters; a pooling keeps the channel count; the
  global pooling flattens to the channel count; a dense layer maps to its units; an
  elementwise add has the (common) shape of its predecessors; a concatenation sums the
  channel counts. No check of the declared channel parameters is made (the
  specification: "not a run-time check performed by the Architecture Graph").
\<close>

fun output_shape :: "shape_rules \<Rightarrow> layer \<Rightarrow> shape list \<Rightarrow> error + shape" where
  "output_shape R StubReLU [s] = Inr s"
| "output_shape R (StubBatchNorm r n) [s] = Inr s"
| "output_shape R (StubDropout r p) [s] = Inr s"
| "output_shape R (StubDropout1d p) [s] = Inr s"
| "output_shape R (StubConv r c f k st p g) [s] =
     Inr (map (conv_extent R k st p) (butlast s) @ [f])"
| "output_shape R (StubPooling r k st p) [s] =
     (if s = [] then Inl IndexError
      else Inr (map (pool_extent R k st p) (butlast s) @ [last s]))"
| "output_shape R (StubAvgPooling r k st p) [s] =
     (if s = [] then Inl IndexError
      else Inr (map (pool_extent R k st p) (butlast s) @ [last s]))"
| "output_shape R (StubGlobalPooling r) [s] =
     (if s = [] then Inl IndexError else Inr [last s])"
| "output_shape R (StubDense i u) [s] = Inr [u]"
| "output_shape R StubAdd [s, t] = Inr s"
| "output_shape R StubConcatenate [s, t] =
     (if s = [] \<or> t = [] then Inl IndexError
      else Inr (butlast s @ [last s + last t]))"
| "output_shape R l ss = Inl ArityError"

text \<open>
  Modelled from the spec: the class \<^verbatim>\<open>Graph\<close> of \<^verbatim>\<open>autokeras.nn.graph\<close> is
  missing. From the specification: nodes have increasing integer ids and one shape each;
  \<^verbatim>\<open>add_layer\<close> appends an operator with one or more existing predecessor ids and
  returns the id of the new node, whose shape comes from the operator and the
  predecessors' shapes; nothing already in the graph changes. \<open>layer_list\<close> keeps, in
  order, each operator with its predecessor ids and its output id.
\<close>

record graph =
  node_list :: "shape list"
  layer_list :: "(layer \<times> nat list \<times> nat) list"
  weighted :: bool

definition Graph :: "shape \<Rightarrow> bool \<Rightarrow> graph" where
  "Graph shp w = \<lparr>node_list = [shp], layer_list = [], weighted = w\<rparr>"

text \<open>
  Building code runs against the one mutable graph and may raise: a \<open>'a build\<close> takes the
  graph and gives the exception, or the value with the graph as it is afterwards.
\<close>

type_synonym 'a build = "graph \<Rightarrow> error + ('a \<times> graph)"

definition ret :: "'a \<Rightarrow> 'a build" where
  "ret x g = Inr (x, g)"

definition seq :: "'a build \<Rightarrow> ('a \<Rightarrow> 'b build) \<Rightarrow> 'b build" where
  "seq m f g = (case m g of Inl e \<Rightarrow> Inl e | Inr (x, g') \<Rightarrow> f x g')"

definition and_then :: "error + 'a \<Rightarrow> ('a \<Rightarrow> error + 'b) \<Rightarrow> error + 'b" where
  "and_then m f = (case m of Inl e \<Rightarrow> Inl e | Inr x \<Rightarrow> f x)"

fun for_each :: "('a \<Rightarrow> 's \<Rightarrow> 's build) \<Rightarrow> 'a list \<Rightarrow> 's \<Rightarrow> 's build" where
  "for_each body [] s = ret s"
| "for_each body (x # xs) s = seq (body x s) (for_each body xs)"

definition add_layer :: "shape_rules \<Rightarrow> layer \<Rightarrow> nat list \<Rightarrow> nat build" where
  "add_layer R l ids g =
     (if list_all (\<lambda>i. i < length (node_list g)) ids
      then (case output_shape R l (map (nth (node_list g)) ids) of
              Inl e \<Rightarrow> Inl e
            | Inr s \<Rightarrow>
                Inr (length (node_list g),
                     g\<lparr>node_list := node_list g @ [s],
                       layer_list := layer_list g @ [(l, ids, length (node_list g))]\<rparr>))
      else Inl IndexError)"

text \<open>\<^verbatim>\<open>graph.node_list[i].shape[-1]\<close> and \<^verbatim>\<open>graph.node_list[i].shape[0]\<close>.\<close>

definition shape_last :: "nat \<Rightarrow> int build" where
  "shape_last i g =
     (if i < length (node_list g) \<and> node_list g ! i \<noteq> []
      then Inr (last (node_list g ! i), g) else Inl IndexError)"

definition shape_first :: "nat \<Rightarrow> int build" where
  "shape_first i g =
     (if i < length (node_list g) \<and> node_list g ! i \<noteq> []
      then Inr (hd (node_list g ! i), g) else Inl IndexError)"

text \<open>\<^verbatim>\<open>self.input_shape[-1]\<close> and \<^verbatim>\<open>self.input_shape[0]\<close>.\<close>

definition index_last :: "shape \<Rightarrow> error + int" where
  "index_last s = (if s = [] then Inl IndexError else Inr (last s))"

definition index_first :: "shape \<Rightarrow> error + int" where
  "index_first s = (if s = [] then Inl IndexError else Inr (hd s))"

text \<open>A generator returns the graph it has built.\<close>

definition built :: "graph \<Rightarrow> 'a build \<Rightarrow> error + graph" where
  "built g m = (case m g of Inl e \<Rightarrow> Inl e | Inr (x, g') \<Rightarrow> Inr g')"

section \<open>NetworkGenerator and CnnGenerator\<close>

record network_generator =
  n_output_node :: int
  input_shape :: shape

record cnn_generator = network_generator +
  n_dim :: int
  ops :: rank

definition CnnGenerator :: "int \<Rightarrow> shape \<Rightarrow> error + cnn_generator" where
  "CnnGenerator n_output shp =
     (if length shp > 4 then Inl InputDimTooHigh
      else if length shp < 2 then Inl InputDimTooLow
      else and_then (resolve (int (length shp) - 1)) (\<lambda>family.
        Inr \<lparr>n_output_node = n_output, input_shape = shp,
             n_dim = int (length shp) - 1, ops = family\<rparr>))"

text \<open>
  \<^verbatim>\<open>int(model_len / 4)\<close> is a true division of two integers, then a truncation towards
  zero. Python gives the quotient as the nearest double (53 significant bits, a tie going
  to the even neighbour) and raises \<^verbatim>\<open>OverflowError\<close> when that double would be
  \<open>2 ^ 1024\<close> or more. Dividing by 4 only moves the exponent, so the quotient's
  significant bits are those of \<^verbatim>\<open>model_len\<close>: \<open>round_half_even a ulp\<close> is \<open>a\<close> rounded
  to the multiple of \<open>ulp\<close> nearest to it, and \<open>ulp\<close> is 1 for a magnitude of at most 53
  bits, where the division is exact.
\<close>

function bit_length :: "int \<Rightarrow> nat" where
  "bit_length n = (if n \<le> 0 then 0 else Suc (bit_length (n div 2)))"
  by pat_completeness auto
termination
  by (relation "measure nat") auto

definition round_half_even :: "int \<Rightarrow> int \<Rightarrow> int" where
  "round_half_even a ulp =
     (let q = a div ulp; r = a mod ulp
      in if 2 * r < ulp then q * ulp
         else if ulp < 2 * r then (q + 1) * ulp
         else if even q then q * ulp else (q + 1) * ulp)"

definition int_quarter :: "int \<Rightarrow> error + int" where
  "int_quarter n =
     (let a = \<bar>n\<bar>;
          ulp = 2 ^ (bit_length a - 53);
          r = round_half_even a ulp
      in if 2 ^ 1026 \<le> r then Inl OverflowError else Inr (sgn n * (r div 4)))"

text \<open>One pass of the loop of \<^verbatim>\<open>CnnGenerator.generate\<close>; the loop's variables are
  \<^verbatim>\<open>output_node_id\<close> and \<^verbatim>\<open>temp_input_channel\<close>.\<close>

definition CnnGenerator_iteration ::
  "shape_rules \<Rightarrow> cnn_generator \<Rightarrow> int \<Rightarrow> int \<Rightarrow> int \<Rightarrow> nat \<Rightarrow> nat \<times> int \<Rightarrow> (nat \<times> int) build" where
  "CnnGenerator_iteration R self model_len model_width pooling_len i st =
     (case st of (output_node_id, temp_input_channel) \<Rightarrow>
      seq (add_layer R StubReLU [output_node_id]) (\<lambda>output_node_id.
      seq (shape_last output_node_id) (\<lambda>channels.
      seq (add_layer R (StubBatchNorm (ops self) channels) [output_node_id]) (\<lambda>output_node_id.
      seq (add_layer R (StubConv (ops self) temp_input_channel model_width 3 (Some 1) None None)
             [output_node_id]) (\<lambda>output_node_id.
      if pooling_len = 0 \<or> ((int i + 1) mod pooling_len = 0 \<and> int i \<noteq> model_len - 1)
      then seq (add_layer R (StubPooling (ops self) None None None) [output_node_id])
             (\<lambda>output_node_id. ret (output_node_id, model_width))
      else ret (output_node_id, model_width))))))"

definition CnnGenerator_generate ::
  "shape_rules \<Rightarrow> cnn_generator \<Rightarrow> int option \<Rightarrow> int option \<Rightarrow> error + graph" where
  "CnnGenerator_generate R self model_len model_width =
     (let model_len = (case model_len of None \<Rightarrow> MODEL_LEN | Some n \<Rightarrow> n);
          model_width = (case model_width of None \<Rightarrow> MODEL_WIDTH | Some w \<Rightarrow> w)
      in and_then (int_quarter model_len) (\<lambda>pooling_len.
         and_then (index_last (input_shape self)) (\<lambda>temp_input_channel.
         built (Graph (input_shape self) False)
          (seq (for_each (CnnGenerator_iteration R self model_len model_width pooling_len)
                  [0..<nat model_len] (0, temp_input_channel)) (\<lambda>(output_node_id, temp_input_channel).
           seq (add_layer R (StubGlobalPooling (ops self)) [output_node_id]) (\<lambda>output_node_id.
           seq (add_layer R (StubDropout (ops self) CONV_DROPOUT_RATE) [output_node_id]) (\<lambda>output_node_id.
           seq (shape_first output_node_id) (\<lambda>flat.
           seq (add_layer R (StubDense flat model_width) [output_node_id]) (\<lambda>output_node_id.
           seq (add_layer R StubReLU [output_node_id]) (\<lambda>output_node_id.
           add_layer R (StubDense model_width (n_output_node self)) [output_node_id]))))))))))"

section \<open>MlpGenerator\<close>

text \<open>\<^verbatim>\<open>model_width\<close> is an integer or a list of integers.\<close>

datatype width = Width int | Widths "int list"

definition MlpGenerator :: "int \<Rightarrow> shape \<Rightarrow> error + network_generator" where
  "MlpGenerator n_output shp =
     (if length shp > 1 then Inl InputDimTooHigh
      else Inr \<lparr>n_output_node = n_output, input_shape = shp\<rparr>)"

text \<open>
  \<^verbatim>\<open>xs * n\<close>, a list repeated: on a 64-bit CPython the count has to fit a signed 64-bit
  index (\<^verbatim>\<open>OverflowError\<close> otherwise), a negative count gives the empty list, and a
  result of more than \<open>PY_SSIZE_T_MAX div 8\<close> elements (8 bytes each) is refused with
  \<^verbatim>\<open>MemoryError\<close> before anything is allocated. The memory a machine really has is
  not modelled.
\<close>

definition PY_SSIZE_T_MAX :: int where
  "PY_SSIZE_T_MAX = 2 ^ 63 - 1"

definition list_repeat :: "'a list \<Rightarrow> int \<Rightarrow> error + 'a list" where
  "list_repeat xs n =
     (if PY_SSIZE_T_MAX < n \<or> n < - PY_SSIZE_T_MAX - 1 then Inl OverflowError
      else if 0 < n \<and> PY_SSIZE_T_MAX div 8 < int (length xs) * n then Inl MemoryError
      else Inr (concat (replicate (nat n) xs)))"

definition MlpGenerator_widths :: "int \<Rightarrow> width \<Rightarrow> error + int list" where
  "MlpGenerator_widths model_len model_width =
     (case model_width of
        Widths ws \<Rightarrow> if int (length ws) \<noteq> model_len then Inl WidthLengthMismatch else Inr ws
      | Width w \<Rightarrow> list_repeat [w] model_len)"

definition MlpGenerator_iteration ::
  "shape_rules \<Rightarrow> int \<Rightarrow> nat \<times> int \<Rightarrow> (nat \<times> int) build" where
  "MlpGenerator_iteration R width_i st =
     (case st of (output_node_id, n_nodes_prev_layer) \<Rightarrow>
      seq (add_layer R (StubDense n_nodes_prev_layer width_i) [output_node_id]) (\<lambda>output_node_id.
      seq (add_layer R (StubDropout1d MLP_DROPOUT_RATE) [output_node_id]) (\<lambda>output_node_id.
      seq (add_layer R StubReLU [output_node_id]) (\<lambda>output_node_id.
      ret (output_node_id, width_i)))))"

definition MlpGenerator_generate ::
  "shape_rules \<Rightarrow> network_generator \<Rightarrow> int option \<Rightarrow> width option \<Rightarrow> error + graph" where
  "MlpGenerator_generate R self model_len model_width =
     (let model_len = (case model_len of None \<Rightarrow> MODEL_LEN | Some n \<Rightarrow> n);
          model_width = (case model_width of None \<Rightarrow> Width MODEL_WIDTH | Some w \<Rightarrow> w)
      in and_then (MlpGenerator_widths model_len model_width) (\<lambda>model_width.
         and_then (index_first (input_shape self)) (\<lambda>n_nodes_prev_layer.
         built (Graph (input_shape self) False)
          (seq (for_each (MlpGenerator_iteration R) model_width (0, n_nodes_prev_layer))
             (\<lambda>(output_node_id, n_nodes_prev_layer).
           add_layer R (StubDense n_nodes_prev_layer (n_output_node self)) [output_node_id])))))"

section \<open>ResNetGenerator\<close>

record resnet_generator = cnn_generator +
  in_planes :: int
  block_expansion :: int

definition ResNetGenerator :: "int \<Rightarrow> shape \<Rightarrow> error + resnet_generator" where
  "ResNetGenerator n_output shp =
     (if length shp > 4 then Inl InputDimTooHigh
      else if length shp < 2 then Inl InputDimTooLow
      else and_then (resolve (int (length shp) - 1)) (\<lambda>family.
        Inr \<lparr>n_output_node = n_output, input_shape = shp,
             n_dim = int (length shp) - 1, ops = family,
             in_planes = 64, block_expansion = 1\<rparr>))"

definition ResNetGenerator_make_block ::
  "shape_rules \<Rightarrow> resnet_generator \<Rightarrow> int \<Rightarrow> int \<Rightarrow> nat \<Rightarrow> int \<Rightarrow> nat build" where
  "ResNetGenerator_make_block R self in_planes' planes node_id stride =
     seq (add_layer R (StubBatchNorm (ops self) in_planes') [node_id]) (\<lambda>out.
     seq (add_layer R StubReLU [out]) (\<lambda>out.
     (let residual_node_id = out in
     seq (add_layer R (StubConv (ops self) in_planes' planes 3 (Some stride) None None) [out]) (\<lambda>out.
     seq (add_layer R (StubBatchNorm (ops self) planes) [out]) (\<lambda>out.
     seq (add_layer R StubReLU [out]) (\<lambda>out.
     seq (add_layer R (StubConv (ops self) planes planes 3 None None None) [out]) (\<lambda>out.
     seq (add_layer R StubReLU [residual_node_id]) (\<lambda>residual_node_id.
     seq (add_layer R (StubConv (ops self) in_planes' (planes * block_expansion self) 1
                         (Some stride) None None) [residual_node_id]) (\<lambda>residual_node_id.
     add_layer R StubAdd [out, residual_node_id])))))))))"

text \<open>\<^verbatim>\<open>_make_layer\<close> assigns \<^verbatim>\<open>self.in_planes\<close> after every block; the model hands
  the generator on with the frontier.\<close>

definition ResNetGenerator_make_layer ::
  "shape_rules \<Rightarrow> resnet_generator \<Rightarrow> int \<Rightarrow> int \<Rightarrow> nat \<Rightarrow> int \<Rightarrow> (nat \<times> resnet_generator) build" where
  "ResNetGenerator_make_layer R self planes blocks node_id stride =
     for_each (\<lambda>current_stride (out, self).
         seq (ResNetGenerator_make_block R self (in_planes self) planes out current_stride) (\<lambda>out.
         ret (out, self\<lparr>in_planes := planes * block_expansion self\<rparr>)))
       (stride # replicate (nat (blocks - 1)) 1) (node_id, self)"

text \<open>The generator as a call leaves it comes back with the graph.\<close>

definition built_with :: "graph \<Rightarrow> 'a build \<Rightarrow> error + (graph \<times> 'a)" where
  "built_with g m = (case m g of Inl e \<Rightarrow> Inl e | Inr (x, g') \<Rightarrow> Inr (g', x))"

definition ResNetGenerator_generate ::
  "shape_rules \<Rightarrow> resnet_generator \<Rightarrow> int option \<Rightarrow> int option
     \<Rightarrow> error + (graph \<times> resnet_generator)" where
  "ResNetGenerator_generate R self model_len model_width =
     (let model_width = (case model_width of None \<Rightarrow> MODEL_WIDTH | Some w \<Rightarrow> w)
      in and_then (index_last (input_shape self)) (\<lambda>temp_input_channel.
         built_with (Graph (input_shape self) False)
          (seq (add_layer R (StubConv (ops self) temp_input_channel model_width 3 None None None) [0])
             (\<lambda>output_node_id.
           seq (add_layer R (StubBatchNorm (ops self) model_width) [output_node_id]) (\<lambda>output_node_id.
           seq (ResNetGenerator_make_layer R self model_width 2 output_node_id 1)
             (\<lambda>(output_node_id, self).
           (let model_width = model_width * 2 in
           seq (ResNetGenerator_make_layer R self model_width 2 output_node_id 2)
             (\<lambda>(output_node_id, self).
           (let model_width = model_width * 2 in
           seq (ResNetGenerator_make_layer R self model_width 2 output_node_id 2)
             (\<lambda>(output_node_id, self).
           (let model_width = model_width * 2 in
           seq (ResNetGenerator_make_layer R self model_width 2 output_node_id 2)
             (\<lambda>(output_node_id, self).
           seq (add_layer R (StubGlobalPooling (ops self)) [output_node_id]) (\<lambda>output_node_id.
           seq (add_layer R (StubDense (model_width * block_expansion self) (n_output_node self))
                  [output_node_id]) (\<lambda>output_node_id.
           ret self))))))))))))))"

section \<open>DenseNetGenerator\<close>

record densenet_generator = cnn_generator +
  num_init_features :: int
  growth_rate :: int
  block_config :: "nat list"
  bn_size :: int
  drop_rate :: int

definition DenseNetGenerator :: "int \<Rightarrow> shape \<Rightarrow> error + densenet_generator" where
  "DenseNetGenerator n_output shp =
     and_then (resolve (int (length shp) - 1)) (\<lambda>family.
       Inr \<lparr>n_output_node = n_output, input_shape = shp,
            n_dim = int (length shp) - 1, ops = family,
            num_init_features = 64, growth_rate = 32, block_config = [6, 12, 24, 16],
            bn_size = 4, drop_rate = 0\<rparr>)"

definition DenseNetGenerator_dense_layer ::
  "shape_rules \<Rightarrow> densenet_generator \<Rightarrow> int \<Rightarrow> int \<Rightarrow> int \<Rightarrow> int \<Rightarrow> nat \<Rightarrow> nat build" where
  "DenseNetGenerator_dense_layer R self num_input_features growth_rate' bn_size' drop_rate'
       input_node_id =
     seq (add_layer R (StubBatchNorm (ops self) num_input_features) [input_node_id]) (\<lambda>out.
     seq (add_layer R StubReLU [out]) (\<lambda>out.
     seq (add_layer R (StubConv (ops self) num_input_features (bn_size' * growth_rate') 1
                         (Some 1) None None) [out]) (\<lambda>out.
     seq (add_layer R (StubBatchNorm (ops self) (bn_size' * growth_rate')) [out]) (\<lambda>out.
     seq (add_layer R StubReLU [out]) (\<lambda>out.
     seq (add_layer R (StubConv (ops self) (bn_size' * growth_rate') growth_rate' 3
                         (Some 1) (Some 1) None) [out]) (\<lambda>out.
     seq (add_layer R (StubDropout (ops self) (Rate drop_rate')) [out]) (\<lambda>out.
     add_layer R StubConcatenate [input_node_id, out])))))))"

definition DenseNetGenerator_dense_block ::
  "shape_rules \<Rightarrow> densenet_generator \<Rightarrow> nat \<Rightarrow> int \<Rightarrow> int \<Rightarrow> int \<Rightarrow> int \<Rightarrow> nat \<Rightarrow> nat build" where
  "DenseNetGenerator_dense_block R self num_layers num_input_features bn_size' growth_rate'
       drop_rate' input_node_id =
     for_each (\<lambda>i block_input_node.
         DenseNetGenerator_dense_layer R self (num_input_features + int i * growth_rate')
           growth_rate' bn_size' drop_rate' block_input_node)
       [0..<num_layers] input_node_id"

definition DenseNetGenerator_transition ::
  "shape_rules \<Rightarrow> densenet_generator \<Rightarrow> int \<Rightarrow> int \<Rightarrow> nat \<Rightarrow> nat build" where
  "DenseNetGenerator_transition R self num_input_features num_output_features input_node_id =
     seq (add_layer R (StubBatchNorm (ops self) num_input_features) [input_node_id]) (\<lambda>out.
     seq (add_layer R StubReLU [out]) (\<lambda>out.
     seq (add_layer R (StubConv (ops self) num_input_features num_output_features 1
                         (Some 1) None None) [out]) (\<lambda>out.
     add_layer R (StubAvgPooling (ops self) (Some 2) (Some 2) None) [out])))"

text \<open>One pass of the loop over \<^verbatim>\<open>enumerate(self.block_config)\<close>; the loop's variables
  are \<^verbatim>\<open>db_input_node_id\<close> and \<^verbatim>\<open>num_features\<close>.\<close>

definition DenseNetGenerator_stage ::
  "shape_rules \<Rightarrow> densenet_generator \<Rightarrow> nat \<times> nat \<Rightarrow> nat \<times> int \<Rightarrow> (nat \<times> int) build" where
  "DenseNetGenerator_stage R self entry st =
     (case entry of (i, num_layers) \<Rightarrow>
      case st of (db_input_node_id, num_features) \<Rightarrow>
      seq (DenseNetGenerator_dense_block R self num_layers num_features (bn_size self)
             (growth_rate self) (drop_rate self) db_input_node_id) (\<lambda>db_input_node_id.
      (let num_features = num_features + int num_layers * growth_rate self in
       if int i \<noteq> int (length (block_config self)) - 1
       then seq (DenseNetGenerator_transition R self num_features (num_features div 2)
                   db_input_node_id) (\<lambda>db_input_node_id.
            ret (db_input_node_id, num_features div 2))
       else ret (db_input_node_id, num_features))))"

definition enumerate_list :: "'a list \<Rightarrow> (nat \<times> 'a) list" where
  "enumerate_list xs = zip [0..<length xs] xs"

definition DenseNetGenerator_generate ::
  "shape_rules \<Rightarrow> densenet_generator \<Rightarrow> int option \<Rightarrow> int option \<Rightarrow> error + graph" where
  "DenseNetGenerator_generate R self model_len model_width =
     (let model_len = (case model_len of None \<Rightarrow> MODEL_LEN | Some n \<Rightarrow> n);
          model_width = (case model_width of None \<Rightarrow> MODEL_WIDTH | Some w \<Rightarrow> w)
      in and_then (index_last (input_shape self)) (\<lambda>temp_input_channel.
         built (Graph (input_shape self) False)
          (seq (add_layer R (StubConv (ops self) temp_input_channel model_width 7 None None None) [0])
             (\<lambda>output_node_id.
           seq (add_layer R (StubBatchNorm (ops self) (num_init_features self)) [output_node_id])
             (\<lambda>output_node_id.
           seq (add_layer R StubReLU [output_node_id]) (\<lambda>output_node_id.
           seq (add_layer R (StubPooling (ops self) (Some 3) (Some 2) (Some 1)) [output_node_id])
             (\<lambda>db_input_node_id.
           seq (for_each (DenseNetGenerator_stage R self) (enumerate_list (block_config self))
                  (db_input_node_id, num_init_features self)) (\<lambda>(db_input_node_id, num_features).
           seq (add_layer R (StubBatchNorm (ops self) num_features) [db_input_node_id]) (\<lambda>out.
           seq (add_layer R StubReLU [out]) (\<lambda>out.
           seq (add_layer R (StubGlobalPooling (ops self)) [out]) (\<lambda>out.
           add_layer R (StubDense num_features (n_output_node self)) [out])))))))))))"

section \<open>MobileNetV2Generator\<close>

text \<open>\<open>cfg\<close> holds (expansion, out_planes, num_blocks, stride).\<close>

record mobilenet_generator = resnet_generator +
  cfg :: "(int \<times> int \<times> int \<times> int) list"

definition MobileNetV2Generator :: "int \<Rightarrow> shape \<Rightarrow> error + mobilenet_generator" where
  "MobileNetV2Generator n_output shp =
     (if length shp > 4 then Inl InputDimTooHigh
      else if length shp < 2 then Inl InputDimTooLow
      else and_then (resolve (int (length shp) - 1)) (\<lambda>family.
        Inr \<lparr>n_output_node = n_output, input_shape = shp,
             n_dim = int (length shp) - 1, ops = family,
             in_planes = 32, block_expansion = 1,
             cfg = [(1, 16, 1, 1), (6, 24, 2, 1)]\<rparr>))"

definition MobileNetV2Generator_make_block ::
  "shape_rules \<Rightarrow> mobilenet_generator \<Rightarrow> int \<Rightarrow> int \<Rightarrow> int \<Rightarrow> nat \<Rightarrow> int \<Rightarrow> nat build" where
  "MobileNetV2Generator_make_block R self in_planes' out_planes expansion node_id stride =
     (let planes = expansion * in_planes' in
      seq (add_layer R (StubConv (ops self) in_planes' planes 1 (Some 1) (Some 0) None) [node_id])
        (\<lambda>output_node_id.
      seq (shape_last output_node_id) (\<lambda>channels.
      seq (add_layer R (StubBatchNorm (ops self) channels) [output_node_id]) (\<lambda>output_node_id.
      seq (add_layer R StubReLU [output_node_id]) (\<lambda>output_node_id.
      seq (add_layer R (StubConv (ops self) planes planes 3 (Some stride) (Some 1) (Some planes))
             [output_node_id]) (\<lambda>output_node_id.
      seq (shape_last output_node_id) (\<lambda>channels.
      seq (add_layer R (StubBatchNorm (ops self) channels) [output_node_id]) (\<lambda>output_node_id.
      seq (add_layer R StubReLU [output_node_id]) (\<lambda>output_node_id.
      seq (add_layer R (StubConv (ops self) planes out_planes 1 (Some 1) (Some 0) None)
             [output_node_id]) (\<lambda>output_node_id.
      seq (shape_last output_node_id) (\<lambda>channels.
      seq (add_layer R (StubBatchNorm (ops self) channels) [output_node_id]) (\<lambda>output_node_id.
      if stride = 1 \<and> in_planes' \<noteq> out_planes
      then (let shortcut_node_id = node_id in
            seq (add_layer R (StubConv (ops self) in_planes' out_planes 1 (Some 1) (Some 0) None)
                   [shortcut_node_id]) (\<lambda>shortcut_node_id.
            seq (shape_last shortcut_node_id) (\<lambda>channels.
            seq (add_layer R (StubBatchNorm (ops self) channels) [shortcut_node_id])
              (\<lambda>shortcut_node_id.
            add_layer R StubAdd [output_node_id, shortcut_node_id]))))
      else ret output_node_id))))))))))))"

definition MobileNetV2Generator_make_layer ::
  "shape_rules \<Rightarrow> mobilenet_generator \<Rightarrow> nat \<Rightarrow> (nat \<times> mobilenet_generator) build" where
  "MobileNetV2Generator_make_layer R self node_id =
     for_each (\<lambda>(expansion, out_planes, num_blocks, stride).
         for_each (\<lambda>stride (out, self).
             seq (MobileNetV2Generator_make_block R self (in_planes self) out_planes expansion
                    out stride) (\<lambda>out.
             ret (out, self\<lparr>in_planes := out_planes\<rparr>)))
           (stride # replicate (nat (num_blocks - 1)) 1))
       (cfg self) (node_id, self)"

definition MobileNetV2Generator_generate ::
  "shape_rules \<Rightarrow> mobilenet_generator \<Rightarrow> int option \<Rightarrow> int option
     \<Rightarrow> error + (graph \<times> mobilenet_generator)" where
  "MobileNetV2Generator_generate R self model_len model_width =
     and_then (index_last (input_shape self)) (\<lambda>temp_input_channel.
     (let out_planes = 24 in
      built_with (Graph (input_shape self) False)
       (seq (add_layer R (StubConv (ops self) temp_input_channel (in_planes self) 3
                            (Some 1) (Some 1) None) [0]) (\<lambda>output_node_id.
        seq (shape_last output_node_id) (\<lambda>channels.
        seq (add_layer R (StubBatchNorm (ops self) channels) [output_node_id]) (\<lambda>output_node_id.
        seq (add_layer R StubReLU [output_node_id]) (\<lambda>output_node_id.
        seq (MobileNetV2Generator_make_layer R self output_node_id) (\<lambda>(output_node_id, self).
        seq (add_layer R (StubConv (ops self) out_planes (out_planes * 4) 1 (Some 1) (Some 0) None)
               [output_node_id]) (\<lambda>output_node_id.
        seq (shape_last output_node_id) (\<lambda>channels.
        seq (add_layer R (StubBatchNorm (ops self) channels) [output_node_id]) (\<lambda>output_node_id.
        seq (add_layer R StubReLU [output_node_id]) (\<lambda>output_node_id.
        seq (add_layer R (StubGlobalPooling (ops self)) [output_node_id]) (\<lambda>output_node_id.
        seq (add_layer R (StubDense (out_planes * 4) (n_output_node self)) [output_node_id])
          (\<lambda>output_node_id.
        ret self))))))))))))))"

section \<open>Reading a generated graph\<close>

text \<open>The shape of the node added last, the operators in the order they were added, the
  operators a stretch of building code has added to a graph, and the elementwise adds
  among them.\<close>

definition final_shape :: "graph \<Rightarrow> shape" where
  "final_shape g = last (node_list g)"

definition descriptors :: "graph \<Rightarrow> layer list" where
  "descriptors g = map fst (layer_list g)"

definition new_layers :: "graph \<Rightarrow> graph \<Rightarrow> (layer \<times> nat list \<times> nat) list" where
  "new_layers g g' = drop (length (layer_list g)) (layer_list g')"

definition is_add :: "layer \<times> nat list \<times> nat \<Rightarrow> bool" where
  "is_add entry = (fst entry = StubAdd)"

text \<open>
  The stack of operators the specification describes for the MLP template: "for each
  width value in order, append dense(prev_size -> width), dropout(fixed rate), activation,
  threading prev_size forward; after the loop append a final dense mapping last width ->
  output cardinality".
\<close>

fun spec_mlp_stack :: "int \<Rightarrow> int list \<Rightarrow> int \<Rightarrow> layer list" where
  "spec_mlp_stack prev_size [] n_out = [StubDense prev_size n_out]"
| "spec_mlp_stack prev_size (w # ws) n_out =
     StubDense prev_size w # StubDropout1d MLP_DROPOUT_RATE # StubReLU
       # spec_mlp_stack w ws n_out"

section \<open>Calling generate twice on one instance\<close>

text \<open>Two calls with the same arguments on the same instance: the second call runs on the
  generator as the first call left it.\<close>

definition ResNetGenerator_generate_twice ::
  "shape_rules \<Rightarrow> resnet_generator \<Rightarrow> int option \<Rightarrow> int option \<Rightarrow> error + (graph \<times> graph)" where
  "ResNetGenerator_generate_twice R self model_len model_width =
     and_then (ResNetGenerator_generate R self model_len model_width) (\<lambda>(first_graph, self).
     and_then (ResNetGenerator_generate R self model_len model_width) (\<lambda>(second_graph, self).
     Inr (first_graph, second_graph)))"

definition MobileNetV2Generator_generate_twice ::
  "shape_rules \<Rightarrow> mobilenet_generator \<Rightarrow> int option \<Rightarrow> int option \<Rightarrow> error + (graph \<times> graph)" where
  "MobileNetV2Generator_generate_twice R self model_len model_width =
     and_then (MobileNetV2Generator_generate R self model_len model_width) (\<lambda>(first_graph, self).
     and_then (MobileNetV2Generator_generate R self model_len model_width) (\<lambda>(second_graph, self).
     Inr (first_graph, second_graph)))"

section \<open>One instance of the shape rules\<close>

text \<open>
  The usual arithmetic of a convolution and of a pooling,
  \<open>(d + 2 * padding - kernel_size) div stride + 1\<close>, with a convolution's padding
  defaulting to half its kernel and its stride to 1, and a pooling's kernel defaulting
  to 2, its stride to its kernel and its padding to 0. The theorems hold for every
  \<open>shape_rules\<close>; this instance is the one the closed examples are evaluated with.
\<close>

definition conventional :: shape_rules where
  "conventional = \<lparr>
     conv_extent = (\<lambda>k st p d.
        (d + 2 * (case p of None \<Rightarrow> k div 2 | Some q \<Rightarrow> q) - k)
          div (case st of None \<Rightarrow> 1 | Some s \<Rightarrow> s) + 1),
     pool_extent = (\<lambda>k st p d.
        (d + 2 * (case p of None \<Rightarrow> 0 | Some q \<Rightarrow> q) - (case k of None \<Rightarrow> 2 | Some q \<Rightarrow> q))
          div (case st of None \<Rightarrow> (case k of None \<Rightarrow> 2 | Some q \<Rightarrow> q) | Some s \<Rightarrow> s) + 1)\<rparr>"

section \<open>Reasoning about building code\<close>

text \<open>
  \<open>returns m g Q\<close>: run on the graph \<open>g\<close>, the building code \<open>m\<close> raises nothing, and its
  value and the graph it leaves satisfy \<open>Q\<close>. \<open>node_ok g i\<close>: \<open>i\<close> is a node of \<open>g\<close> whose
  shape has a last dimension. \<open>extends g g'\<close>: \<open>g'\<close> is \<open>g\<close> with nodes and operators
  appended.
\<close>

definition returns :: "'a build \<Rightarrow> graph \<Rightarrow> ('a \<Rightarrow> graph \<Rightarrow> bool) \<Rightarrow> bool" where
  "returns m g Q = (case m g of Inl e \<Rightarrow> False | Inr (x, g') \<Rightarrow> Q x g')"

definition node_ok :: "graph \<Rightarrow> nat \<Rightarrow> bool" where
  "node_ok g i = (i < length (node_list g) \<and> node_list g ! i \<noteq> [])"

definition extends :: "graph \<Rightarrow> graph \<Rightarrow> bool" where
  "extends g g' = (prefix (node_list g) (node_list g') \<and> prefix (layer_list g) (layer_list g'))"

section \<open>Rules for building code\<close>

lemmas run_defs = returns_def seq_def ret_def add_layer_def shape_last_def shape_first_def

lemma returns_ret: "returns (ret x) g Q = Q x g"
  by (simp add: returns_def ret_def)

lemma returns_seq: "returns (seq m f) g Q = returns m g (\<lambda>x g'. returns (f x) g' Q)"
  by (simp add: returns_def seq_def split: sum.splits prod.splits)

lemma returns_mono:
  assumes "returns m g P" and "\<And>x g'. P x g' \<Longrightarrow> Q x g'"
  shows "returns m g Q"
  using assms by (auto simp: returns_def split: sum.splits)

lemma extends_refl: "extends g g"
  by (simp add: extends_def)

lemma extends_trans: "extends g g' \<Longrightarrow> extends g' g'' \<Longrightarrow> extends g g''"
  by (auto simp: extends_def)

lemma returns_for_each:
  assumes "I s g" and "\<And>x s g. x \<in> set xs \<Longrightarrow> I s g \<Longrightarrow> returns (body x s) g I"
  shows "returns (for_each body xs s) g I"
  using assms
proof (induction xs arbitrary: s g)
  case Nil
  then show ?case by (simp add: returns_ret)
next
  case (Cons x xs)
  have "returns (body x s) g I" using Cons.prems by simp
  then have "returns (body x s) g (\<lambda>s' g'. returns (for_each body xs s') g' I)"
  proof (rule returns_mono)
    fix s' g' assume "I s' g'"
    then show "returns (for_each body xs s') g' I"
      using Cons.prems(2) by (intro Cons.IH) auto
  qed
  then show ?case by (simp add: returns_seq)
qed


lemma returns_seqI:
  assumes "returns m g P" and "\<And>x g'. P x g' \<Longrightarrow> returns (f x) g' Q"
  shows "returns (seq m f) g Q"
  unfolding returns_seq using assms by (rule returns_mono)

lemma returns_for_each_upt_from:
  assumes "I k s g" and "k \<le> n"
    and "\<And>i s g. k \<le> i \<Longrightarrow> i < n \<Longrightarrow> I i s g \<Longrightarrow> returns (body i s) g (I (Suc i))"
  shows "returns (for_each body [k..<n] s) g (I n)"
  using assms
proof (induction "n - k" arbitrary: k s g)
  case 0
  then show ?case by (simp add: returns_ret)
next
  case (Suc d)
  then have lt: "k < n" by simp
  have step: "returns (body k s) g (I (Suc k))"
    using Suc.prems lt by simp
  have rest: "returns (for_each body [Suc k..<n] s') g' (I n)" if "I (Suc k) s' g'" for s' g'
  proof (rule Suc.hyps(1))
    show "d = n - Suc k" using Suc.hyps(2) by simp
    show "I (Suc k) s' g'" by (rule that)
    show "Suc k \<le> n" using lt by simp
    show "returns (body i s) g (I (Suc i))" if "Suc k \<le> i" "i < n" "I i s g" for i s g
      using that Suc.prems(3) by simp
  qed
  show ?case
    using lt by (simp add: upt_conv_Cons returns_seqI [OF step rest])
qed



lemma returnsD: "returns m g Q \<Longrightarrow> \<exists>x g'. m g = Inr (x, g') \<and> Q x g'"
  by (auto simp: returns_def split: sum.splits)

lemma built_ok: "returns m g (\<lambda>x g'. Q g') \<Longrightarrow> \<exists>g'. built g m = Inr g' \<and> Q g'"
  by (auto simp: returns_def built_def split: sum.splits)

lemma node_ok_Graph: "shp \<noteq> [] \<Longrightarrow> node_ok (Graph shp w) 0"
  by (simp add: node_ok_def Graph_def)

lemma seq_add_unary:
  assumes "node_ok g i" and "l \<noteq> StubAdd" and "l \<noteq> StubConcatenate"
    and "\<And>out g'. node_ok g' out \<Longrightarrow> extends g g' \<Longrightarrow>
           layer_list g' = layer_list g @ [(l, [i], length (node_list g))] \<Longrightarrow>
           returns (f out) g' Q"
  shows "returns (seq (add_layer R l [i]) f) g Q"
proof -
  obtain s where s: "output_shape R l [node_list g ! i] = Inr s" "s \<noteq> []"
    using assms(1-3) by (cases l) (auto simp: node_ok_def)
  let ?g = "g\<lparr>node_list := node_list g @ [s],
               layer_list := layer_list g @ [(l, [i], length (node_list g))]\<rparr>"
  have "returns (f (length (node_list g))) ?g Q"
    using s by (intro assms(4)) (simp_all add: node_ok_def extends_def)
  then show ?thesis
    using assms(1) s by (simp add: run_defs node_ok_def)
qed

lemma seq_shape_last:
  assumes "node_ok g i" and "returns (f (last (node_list g ! i))) g Q"
  shows "returns (seq (shape_last i) f) g Q"
  using assms by (simp add: run_defs node_ok_def)

subsection \<open>The float division\<close>

declare bit_length.simps [simp del]

lemma bit_length_le: "n < 2 ^ k \<Longrightarrow> bit_length n \<le> k"
proof (induction k arbitrary: n)
  case 0
  then show ?case by (simp add: bit_length.simps)
next
  case (Suc k)
  show ?case
  proof (cases "n \<le> 0")
    case True
    then show ?thesis by (simp add: bit_length.simps)
  next
    case False
    have "n div 2 < 2 ^ k" using Suc.prems by auto
    then have "bit_length (n div 2) \<le> k" by (rule Suc.IH)
    then show ?thesis using False by (subst bit_length.simps) simp
  qed
qed

lemma round_half_even_one: "round_half_even a 1 = a"
  by (simp add: round_half_even_def)

lemma round_half_even_le:
  assumes "0 < u" and "0 \<le> a"
  shows "round_half_even a u \<le> a + u"
proof -
  have "a = a div u * u + a mod u" by simp
  moreover have "0 \<le> a mod u" using assms(1) by simp
  ultimately have low: "a div u * u \<le> a" by linarith
  then have "(a div u + 1) * u \<le> a + u" by (simp add: algebra_simps)
  then show ?thesis
    using low assms by (auto simp: round_half_even_def Let_def)
qed

lemma int_quarter_exact:
  assumes "\<bar>n\<bar> < 2 ^ 53"
  shows "int_quarter n = Inr (if 0 \<le> n then n div 4 else - ((- n) div 4))"
proof -
  have "bit_length \<bar>n\<bar> \<le> 53" using assms by (rule bit_length_le)
  then have u: "(2::int) ^ (bit_length \<bar>n\<bar> - 53) = 1" by simp
  have "\<not> (2::int) ^ 1026 \<le> \<bar>n\<bar>"
  proof -
    have "(2::int) ^ 53 \<le> 2 ^ 1026" by (rule power_increasing) simp_all
    then show ?thesis using assms by linarith
  qed
  then show ?thesis
    unfolding int_quarter_def Let_def u round_half_even_one
    by (cases "0 \<le> n") (simp_all add: sgn_if)
qed

lemma int_quarter_in_range:
  assumes "\<bar>n\<bar> < 2 ^ 1024"
  shows "\<exists>p. int_quarter n = Inr p"
proof -
  let ?a = "\<bar>n\<bar>"
  let ?u = "(2::int) ^ (bit_length ?a - 53)"
  have "bit_length ?a \<le> 1024" using assms by (rule bit_length_le)
  then have "bit_length ?a - 53 \<le> 1024" by simp
  then have u: "?u \<le> 2 ^ 1024" by (intro power_increasing) simp_all
  have "round_half_even ?a ?u \<le> ?a + ?u"
    by (rule round_half_even_le) simp_all
  also have "\<dots> < 2 ^ 1024 + 2 ^ 1024" using assms u by linarith
  also have "\<dots> \<le> (2::int) ^ 1026"
  proof -
    have "(2::int) ^ 1024 + 2 ^ 1024 = 2 ^ 1025" by simp
    moreover have "(2::int) ^ 1025 \<le> 2 ^ 1026" by (rule power_increasing) simp_all
    ultimately show ?thesis by simp
  qed
  finally have "\<not> 2 ^ 1026 \<le> round_half_even ?a ?u" by simp
  then show ?thesis by (simp add: int_quarter_def Let_def)
qed

text \<open>The division at a depth of \<open>10 ^ 400\<close> raises, and past \<open>2 ^ 53\<close> it rounds.\<close>

lemma int_quarter_overflows: "int_quarter (10 ^ 400) = Inl OverflowError"
  by code_simp

lemma int_quarter_rounds: "int_quarter (2 ^ 54 + 6) = Inr (2 ^ 52 + 2)"
  by code_simp

lemma list_repeat_singleton:
  assumes "- (2 ^ 63) \<le> n" and "n < 2 ^ 60"
  shows "list_repeat [w] n = Inr (replicate (nat n) w)"
proof -
  have "concat (replicate k [w]) = replicate k w" for k
    by (induction k) simp_all
  then show ?thesis
    using assms by (simp add: list_repeat_def PY_SSIZE_T_MAX_def)
qed

lemma list_repeat_not_mismatch: "list_repeat xs n \<noteq> Inl WidthLengthMismatch"
  by (simp add: list_repeat_def)

subsection \<open>Plain CNN\<close>

lemma CnnGenerator_iteration_ok:
  assumes "node_ok g out"
  shows "returns (CnnGenerator_iteration R self model_len model_width pooling_len i (out, c)) g
           (\<lambda>st g'. node_ok g' (fst st) \<and> extends g g')"
  using assms
  by (simp add: CnnGenerator_iteration_def run_defs node_ok_def extends_def nth_append)

lemma CnnGenerator_loop_ok:
  assumes "node_ok g out"
  shows "returns (for_each (CnnGenerator_iteration R self ml mw pl) xs (out, c)) g
           (\<lambda>st g'. node_ok g' (fst st))"
proof (rule returns_for_each [where I = "\<lambda>st g'. node_ok g' (fst st)"])
  show "node_ok g (fst (out, c))" using assms by simp
next
  fix x :: nat and s :: "nat \<times> int" and g'
  assume "node_ok g' (fst s)"
  then have "returns (CnnGenerator_iteration R self ml mw pl x s) g'
               (\<lambda>st g''. node_ok g'' (fst st) \<and> extends g' g'')"
    using CnnGenerator_iteration_ok [of g' "fst s" R self ml mw pl x "snd s"] by simp
  then show "returns (CnnGenerator_iteration R self ml mw pl x s) g' (\<lambda>st g''. node_ok g'' (fst st))"
    by (rule returns_mono) simp_all
qed

lemma CnnGenerator_generate_ok:
  assumes "input_shape self \<noteq> []"
    and "int_quarter (case depth of None \<Rightarrow> MODEL_LEN | Some n \<Rightarrow> n) = Inr p"
  shows "\<exists>g. CnnGenerator_generate R self depth width = Inr g \<and>
           final_shape g = [n_output_node self]"
  unfolding CnnGenerator_generate_def Let_def
  using assms
  apply (simp add: and_then_def index_last_def)
  apply (rule built_ok)
  apply (rule returns_seqI [OF CnnGenerator_loop_ok])
   apply (simp add: node_ok_Graph)
  apply (clarsimp simp: run_defs node_ok_def final_shape_def nth_append)
  done

subsection \<open>MLP\<close>

lemma MlpGenerator_iteration_ok:
  assumes "node_ok g out"
  shows "returns (MlpGenerator_iteration R w (out, c)) g
           (\<lambda>st g'. node_ok g' (fst st) \<and> snd st = w \<and>
              descriptors g' =
                descriptors g @ [StubDense c w, StubDropout1d MLP_DROPOUT_RATE, StubReLU])"
  using assms
  by (simp add: MlpGenerator_iteration_def run_defs node_ok_def descriptors_def nth_append)

lemma MlpGenerator_loop_ok:
  assumes "node_ok g out"
  shows "returns (for_each (MlpGenerator_iteration R) ws (out, c)) g
           (\<lambda>st g'. node_ok g' (fst st) \<and>
              descriptors g' @ [StubDense (snd st) n] = descriptors g @ spec_mlp_stack c ws n)"
  using assms
proof (induction ws arbitrary: out c g)
  case Nil
  then show ?case by (simp add: returns_ret)
next
  case (Cons w ws)
  have rest: "returns (for_each (MlpGenerator_iteration R) ws st) g'
          (\<lambda>st' g''. node_ok g'' (fst st') \<and>
              descriptors g'' @ [StubDense (snd st') n]
                = descriptors g @ spec_mlp_stack c (w # ws) n)"
    if step: "node_ok g' (fst st) \<and> snd st = w \<and>
              descriptors g' =
                descriptors g @ [StubDense c w, StubDropout1d MLP_DROPOUT_RATE, StubReLU]"
    for st g'
  proof -
    have "returns (for_each (MlpGenerator_iteration R) ws (fst st, snd st)) g'
          (\<lambda>st' g''. node_ok g'' (fst st') \<and>
              descriptors g'' @ [StubDense (snd st') n]
                = descriptors g' @ spec_mlp_stack (snd st) ws n)"
      using step by (intro Cons.IH) simp
    then show ?thesis
      using step by (auto elim!: returns_mono)
  qed
  show ?case
    using returns_seqI [OF MlpGenerator_iteration_ok [OF Cons.prems, of R w c] rest]
    by simp
qed

lemma MlpGenerator_build_ok:
  assumes "input_shape self \<noteq> []"
  shows "\<exists>g. built (Graph (input_shape self) False)
               (seq (for_each (MlpGenerator_iteration R) ws (0, c))
                  (\<lambda>(output_node_id, n_nodes_prev_layer).
                     add_layer R (StubDense n_nodes_prev_layer (n_output_node self)) [output_node_id]))
             = Inr g \<and> final_shape g = [n_output_node self] \<and>
             descriptors g = spec_mlp_stack c ws (n_output_node self)"
  apply (rule built_ok)
  apply (rule returns_seqI [OF MlpGenerator_loop_ok [where n = "n_output_node self"]])
   apply (simp add: node_ok_Graph assms)
  apply (clarsimp simp: run_defs node_ok_def final_shape_def descriptors_def Graph_def)
  done

lemma MlpGenerator_generate_ok:
  assumes "input_shape self \<noteq> []"
    and "MlpGenerator_widths (case depth of None \<Rightarrow> MODEL_LEN | Some n \<Rightarrow> n)
           (case width of None \<Rightarrow> Width MODEL_WIDTH | Some w \<Rightarrow> w) = Inr ws"
  shows "\<exists>g. MlpGenerator_generate R self depth width = Inr g \<and>
           final_shape g = [n_output_node self] \<and>
           descriptors g = spec_mlp_stack (hd (input_shape self)) ws (n_output_node self)"
  unfolding MlpGenerator_generate_def Let_def
  using assms MlpGenerator_build_ok [OF assms(1)]
  by (simp add: and_then_def index_first_def)

subsection \<open>ResNet\<close>

lemma built_with_eq_ok:
  "returns m g (\<lambda>x g'. x = v \<and> Q g') \<Longrightarrow> \<exists>g'. built_with g m = Inr (g', v) \<and> Q g'"
  by (auto simp: returns_def built_with_def split: sum.splits)

lemma ResNetGenerator_make_block_ok:
  assumes "node_ok g node_id"
  shows "returns (ResNetGenerator_make_block R self inp planes node_id stride) g
           (\<lambda>out g'. node_ok g' out \<and> extends g g')"
  using assms
  by (simp add: ResNetGenerator_make_block_def run_defs node_ok_def extends_def nth_append Let_def)

lemma ResNetGenerator_make_layer_ok:
  assumes "node_ok g node_id"
  shows "returns (ResNetGenerator_make_layer R self planes 2 node_id stride) g
           (\<lambda>st g'. node_ok g' (fst st) \<and> extends g g' \<and>
              snd st = self\<lparr>in_planes := planes * block_expansion self\<rparr>)"
proof -
  let ?self' = "self\<lparr>in_planes := planes * block_expansion self\<rparr>"
  have second: "returns (ResNetGenerator_make_block R ?self' (in_planes ?self') planes out 1) g'
            (\<lambda>y g''. node_ok g'' y \<and> extends g g'')"
    if "node_ok g' out \<and> extends g g'" for out g'
    using ResNetGenerator_make_block_ok [of g' out R ?self' "in_planes ?self'" planes 1] that
    by (auto elim!: returns_mono intro: extends_trans)
  have "returns (ResNetGenerator_make_block R self (in_planes self) planes node_id stride) g
          (\<lambda>out g'. returns (ResNetGenerator_make_block R ?self' (in_planes ?self') planes out 1) g'
            (\<lambda>y g''. node_ok g'' y \<and> extends g g''))"
    by (rule returns_mono [OF ResNetGenerator_make_block_ok [OF assms]]) (rule second)
  then show ?thesis
    by (simp add: ResNetGenerator_make_layer_def returns_seq returns_ret)
qed

lemma ResNetGenerator_generate_ok:
  assumes "input_shape self \<noteq> []"
  shows "\<exists>g. ResNetGenerator_generate R self depth width =
             Inr (g, self\<lparr>in_planes := (case width of None \<Rightarrow> MODEL_WIDTH | Some w \<Rightarrow> w) * 2 * 2 * 2
                                      * block_expansion self\<rparr>) \<and>
           final_shape g = [n_output_node self] \<and>
           fst (last (layer_list g)) =
             StubDense ((case width of None \<Rightarrow> MODEL_WIDTH | Some w \<Rightarrow> w) * 2 * 2 * 2
                          * block_expansion self) (n_output_node self)"
  unfolding ResNetGenerator_generate_def Let_def
  using assms
  apply (simp add: and_then_def index_last_def)
  apply (rule built_with_eq_ok)
  apply (rule seq_add_unary, simp add: node_ok_Graph, simp, simp)
  apply (rule seq_add_unary, assumption, simp, simp)
  apply (rule returns_seqI [OF ResNetGenerator_make_layer_ok], assumption, clarsimp)
  apply (rule returns_seqI [OF ResNetGenerator_make_layer_ok], assumption, clarsimp)
  apply (rule returns_seqI [OF ResNetGenerator_make_layer_ok], assumption, clarsimp)
  apply (rule returns_seqI [OF ResNetGenerator_make_layer_ok], assumption, clarsimp)
  apply (simp add: run_defs node_ok_def final_shape_def nth_append)
  done

subsection \<open>DenseNet\<close>

lemma DenseNetGenerator_dense_layer_ok:
  assumes "node_ok g i"
  shows "returns (DenseNetGenerator_dense_layer R self nif gr bs dr i) g
           (\<lambda>out g'. node_ok g' out \<and> extends g g' \<and>
              last (node_list g' ! out) = last (node_list g ! i) + gr \<and>
              (\<exists>prev. last (layer_list g') = (StubConcatenate, [i, prev], out)))"
  using assms
  by (simp add: DenseNetGenerator_dense_layer_def run_defs node_ok_def extends_def nth_append)

lemma DenseNetGenerator_dense_block_ok:
  assumes "node_ok g i"
  shows "returns (DenseNetGenerator_dense_block R self n nif bs gr dr i) g
           (\<lambda>out g'. node_ok g' out \<and> extends g g' \<and>
              last (node_list g' ! out) = last (node_list g ! i) + int n * gr)"
  unfolding DenseNetGenerator_dense_block_def
proof (rule returns_for_each_upt_from
    [where I = "\<lambda>k out g'. node_ok g' out \<and> extends g g' \<and>
                  last (node_list g' ! out) = last (node_list g ! i) + int k * gr"])
  show "node_ok g i \<and> extends g g \<and> last (node_list g ! i) = last (node_list g ! i) + int 0 * gr"
    using assms by (simp add: extends_refl)
  show "0 \<le> n" by simp
next
  fix k s g'
  assume inv: "node_ok g' s \<and> extends g g' \<and>
               last (node_list g' ! s) = last (node_list g ! i) + int k * gr"
  then have "node_ok g' s" by simp
  then have "returns (DenseNetGenerator_dense_layer R self (nif + int k * gr) gr bs dr s) g'
           (\<lambda>out g''. node_ok g'' out \<and> extends g' g'' \<and>
              last (node_list g'' ! out) = last (node_list g' ! s) + gr \<and>
              (\<exists>prev. last (layer_list g'') = (StubConcatenate, [s, prev], out)))"
    by (rule DenseNetGenerator_dense_layer_ok)
  then show "returns (DenseNetGenerator_dense_layer R self (nif + int k * gr) gr bs dr s) g'
           (\<lambda>out g''. node_ok g'' out \<and> extends g g'' \<and>
              last (node_list g'' ! out) = last (node_list g ! i) + int (Suc k) * gr)"
    using inv by (auto elim!: returns_mono intro: extends_trans simp: algebra_simps)
qed

lemma DenseNetGenerator_transition_ok:
  assumes "node_ok g i"
  shows "returns (DenseNetGenerator_transition R self nif nof i) g
           (\<lambda>out g'. node_ok g' out \<and> extends g g' \<and> last (node_list g' ! out) = nof)"
  using assms
  by (simp add: DenseNetGenerator_transition_def run_defs node_ok_def extends_def nth_append)

lemma DenseNetGenerator_stage_ok:
  assumes "node_ok g db"
  shows "returns (DenseNetGenerator_stage R self (i, n) (db, nf)) g
           (\<lambda>st g'. node_ok g' (fst st) \<and> extends g g' \<and>
              snd st = (if int i \<noteq> int (length (block_config self)) - 1
                        then (nf + int n * growth_rate self) div 2
                        else nf + int n * growth_rate self) \<and>
              (last (node_list g ! db) = nf \<longrightarrow> last (node_list g' ! fst st) = snd st))"
proof -
  have tr: "returns (DenseNetGenerator_transition R self a b out) g'
              (\<lambda>out' g''. node_ok g'' out' \<and> extends g g'' \<and> last (node_list g'' ! out') = b)"
    if "node_ok g' out" "extends g g'" for a b out g'
    using DenseNetGenerator_transition_ok [OF that(1), of R self a b] that(2)
    by (auto elim!: returns_mono intro: extends_trans)
  show ?thesis
  proof (cases "int i \<noteq> int (length (block_config self)) - 1")
    case True
    then show ?thesis
      unfolding DenseNetGenerator_stage_def
      apply (simp add: Let_def)
      apply (rule returns_seqI [OF DenseNetGenerator_dense_block_ok [OF assms]])
      apply (elim conjE)
      apply (rule returns_seqI [OF tr], assumption, assumption)
      apply (simp add: returns_ret)
      done
  next
    case False
    then show ?thesis
      unfolding DenseNetGenerator_stage_def
      apply (simp add: Let_def)
      apply (rule returns_seqI [OF DenseNetGenerator_dense_block_ok [OF assms]])
      apply (simp add: returns_ret)
      done
  qed
qed

lemma DenseNetGenerator_stages_ok:
  assumes "node_ok g db"
  shows "returns (for_each (DenseNetGenerator_stage R self) xs (db, nf)) g
           (\<lambda>st g'. node_ok g' (fst st) \<and> extends g g')"
proof (rule returns_for_each [where I = "\<lambda>st g'. node_ok g' (fst st) \<and> extends g g'"])
  show "node_ok g (fst (db, nf)) \<and> extends g g" using assms by (simp add: extends_refl)
next
  fix x :: "nat \<times> nat" and s :: "nat \<times> int" and g'
  assume inv: "node_ok g' (fst s) \<and> extends g g'"
  show "returns (DenseNetGenerator_stage R self x s) g' (\<lambda>st g''. node_ok g'' (fst st) \<and> extends g g'')"
    using DenseNetGenerator_stage_ok [of g' "fst s" R self "fst x" "snd x" "snd s"] inv
    by (auto elim!: returns_mono intro: extends_trans)
qed



lemma extends_take_layers:
  "extends g g' \<Longrightarrow> take (length (layer_list g)) (layer_list g') = layer_list g"
  by (auto simp: extends_def prefix_def)

lemma extends_layers_length: "extends g g' \<Longrightarrow> length (layer_list g) \<le> length (layer_list g')"
  by (auto simp: extends_def prefix_def)

lemma DenseNetGenerator_generate_ok:
  assumes "input_shape self \<noteq> []"
  shows "\<exists>g. DenseNetGenerator_generate R self depth width = Inr g \<and>
           final_shape g = [n_output_node self] \<and>
           take 2 (descriptors g) =
             [StubConv (ops self) (last (input_shape self))
                (case width of None \<Rightarrow> MODEL_WIDTH | Some w \<Rightarrow> w) 7 None None None,
              StubBatchNorm (ops self) (num_init_features self)]"
proof -
  let ?w = "case width of None \<Rightarrow> MODEL_WIDTH | Some w \<Rightarrow> w"
  let ?first = "[StubConv (ops self) (last (input_shape self)) ?w 7 None None None,
                 StubBatchNorm (ops self) (num_init_features self)]"
  have tail: "returns
      (seq (add_layer R (StubBatchNorm (ops self) nf) [db]) (\<lambda>out.
       seq (add_layer R StubReLU [out]) (\<lambda>out.
       seq (add_layer R (StubGlobalPooling (ops self)) [out]) (\<lambda>out.
       add_layer R (StubDense nf (n_output_node self)) [out])))) g'
      (\<lambda>x g''. final_shape g'' = [n_output_node self] \<and> take 2 (descriptors g'') = ?first)"
    if "node_ok g' db" "extends g2 g'" "map fst (layer_list g2) = ?first" for db nf g' g2
  proof -
    have len2: "length (layer_list g2) = 2"
      using arg_cong [OF that(3), of length] by simp
    have "take 2 (layer_list g') = layer_list g2"
      using extends_take_layers [OF that(2)] by (simp only: len2)
    moreover have "2 \<le> length (layer_list g')"
      using extends_layers_length [OF that(2)] by (simp only: len2)
    ultimately show ?thesis
      using that(1,3)
      by (simp add: run_defs node_ok_def final_shape_def descriptors_def nth_append take_map)
  qed
  show ?thesis
    unfolding DenseNetGenerator_generate_def Let_def
    using assms
    apply (simp add: and_then_def index_last_def)
    apply (rule built_ok)
    apply (rule seq_add_unary, simp add: node_ok_Graph, simp, simp)
    apply (rule seq_add_unary, assumption, simp, simp)
    apply (rule seq_add_unary, assumption, simp, simp)
    apply (rule seq_add_unary, assumption, simp, simp)
    apply (rule returns_seqI [OF DenseNetGenerator_stages_ok], assumption)
    apply (clarsimp simp del: take_Suc_Cons)
    subgoal premises prems for out1 g1 out2 g2 out3 g3 out4 g4 db nf g5
      apply (rule tail [of g5 db g2 nf])
      using prems apply (simp_all add: Graph_def)
      apply (blast intro: extends_trans)
      done
    done
qed

subsection \<open>MobileNet-V2\<close>

lemma built_with_some_ok:
  "returns m g (\<lambda>x g'. Q g') \<Longrightarrow> \<exists>g'. (\<exists>x. built_with g m = Inr (g', x)) \<and> Q g'"
  by (auto simp: returns_def built_with_def split: sum.splits)

lemma MobileNetV2Generator_make_block_ok:
  assumes "node_ok g node_id"
  shows "returns (MobileNetV2Generator_make_block R self inp outp e node_id stride) g
           (\<lambda>out g'. node_ok g' out \<and> extends g g')"
  using assms
  by (simp add: MobileNetV2Generator_make_block_def run_defs node_ok_def extends_def nth_append Let_def)

lemma MobileNetV2Generator_blocks_ok:
  assumes "node_ok g out" and "\<exists>p. self' = self\<lparr>in_planes := p\<rparr>"
  shows "returns (for_each (\<lambda>stride (out, self).
             seq (MobileNetV2Generator_make_block R self (in_planes self) outp e out stride) (\<lambda>out.
             ret (out, self\<lparr>in_planes := outp\<rparr>))) strides (out, self')) g
           (\<lambda>st g'. node_ok g' (fst st) \<and> (\<exists>p. snd st = self\<lparr>in_planes := p\<rparr>))"
proof (rule returns_for_each
    [where I = "\<lambda>st g'. node_ok g' (fst st) \<and> (\<exists>p. snd st = self\<lparr>in_planes := p\<rparr>)"])
  show "node_ok g (fst (out, self')) \<and> (\<exists>p. snd (out, self') = self\<lparr>in_planes := p\<rparr>)"
    using assms by simp
next
  fix x :: int and s :: "nat \<times> mobilenet_generator" and g'
  assume inv: "node_ok g' (fst s) \<and> (\<exists>p. snd s = self\<lparr>in_planes := p\<rparr>)"
  then obtain p where p: "snd s = self\<lparr>in_planes := p\<rparr>" by blast
  have upd: "\<exists>q. self\<lparr>in_planes := outp\<rparr> = self\<lparr>in_planes := q\<rparr>" by blast
  show "returns ((case s of (out, self) \<Rightarrow>
             seq (MobileNetV2Generator_make_block R self (in_planes self) outp e out x) (\<lambda>out.
             ret (out, self\<lparr>in_planes := outp\<rparr>)))) g'
          (\<lambda>st g''. node_ok g'' (fst st) \<and> (\<exists>p. snd st = self\<lparr>in_planes := p\<rparr>))"
    using MobileNetV2Generator_make_block_ok [of g' "fst s" R "snd s" "in_planes (snd s)" outp e x]
      inv p upd
    by (cases s) (auto simp: returns_seq returns_ret elim!: returns_mono)
qed

lemma MobileNetV2Generator_make_layer_ok:
  assumes "node_ok g node_id"
  shows "returns (MobileNetV2Generator_make_layer R self node_id) g
           (\<lambda>st g'. node_ok g' (fst st) \<and> (\<exists>p. snd st = self\<lparr>in_planes := p\<rparr>))"
  unfolding MobileNetV2Generator_make_layer_def
proof (rule returns_for_each
    [where I = "\<lambda>st g'. node_ok g' (fst st) \<and> (\<exists>p. snd st = self\<lparr>in_planes := p\<rparr>)"])
  have "self = self\<lparr>in_planes := in_planes self\<rparr>" by simp
  then have "\<exists>p. self = self\<lparr>in_planes := p\<rparr>" by (rule exI)
  then show "node_ok g (fst (node_id, self)) \<and> (\<exists>p. snd (node_id, self) = self\<lparr>in_planes := p\<rparr>)"
    using assms by simp
next
  fix x :: "int \<times> int \<times> int \<times> int" and s :: "nat \<times> mobilenet_generator" and g'
  assume inv: "node_ok g' (fst s) \<and> (\<exists>p. snd s = self\<lparr>in_planes := p\<rparr>)"
  have "returns (for_each (\<lambda>stride (out, self).
             seq (MobileNetV2Generator_make_block R self (in_planes self) outp e out stride) (\<lambda>out.
             ret (out, self\<lparr>in_planes := outp\<rparr>))) strides s) g'
           (\<lambda>st g'. node_ok g' (fst st) \<and> (\<exists>p. snd st = self\<lparr>in_planes := p\<rparr>))"
    for outp e strides
    using MobileNetV2Generator_blocks_ok [of g' "fst s" "snd s" self R outp e strides] inv
    by simp
  then show "returns ((case x of (expansion, out_planes, num_blocks, stride) \<Rightarrow>
         for_each (\<lambda>stride (out, self).
             seq (MobileNetV2Generator_make_block R self (in_planes self) out_planes expansion
                    out stride) (\<lambda>out.
             ret (out, self\<lparr>in_planes := out_planes\<rparr>)))
           (stride # replicate (nat (num_blocks - 1)) 1)) s) g'
         (\<lambda>st g''. node_ok g'' (fst st) \<and> (\<exists>p. snd st = self\<lparr>in_planes := p\<rparr>))"
    by (cases x) (simp del: for_each.simps)
qed

lemma MobileNetV2Generator_generate_ok:
  assumes "input_shape self \<noteq> []"
  shows "\<exists>g self'. MobileNetV2Generator_generate R self depth width = Inr (g, self') \<and>
           final_shape g = [n_output_node self]"
  unfolding MobileNetV2Generator_generate_def Let_def
  using assms
  apply (simp add: and_then_def index_last_def)
  apply (rule built_with_some_ok)
  apply (rule seq_add_unary, simp add: node_ok_Graph, simp, simp)
  apply (rule seq_shape_last, assumption)
  apply (rule seq_add_unary, assumption, simp, simp)
  apply (rule seq_add_unary, assumption, simp, simp)
  apply (rule returns_seqI [OF MobileNetV2Generator_make_layer_ok], assumption)
  apply (clarsimp simp: run_defs node_ok_def final_shape_def nth_append)
  done



lemma MobileNetV2_block_same_planes:
  assumes "node_id < length (node_list g)"
  shows "returns (MobileNetV2Generator_make_block R self p p e node_id 1) g
           (\<lambda>out g'. out = length (node_list g) + 7 \<and>
              new_layers g g' =
                [(StubConv (ops self) p (e * p) 1 (Some 1) (Some 0) None, [node_id], length (node_list g)),
                 (StubBatchNorm (ops self) (e * p), [length (node_list g)], length (node_list g) + 1),
                 (StubReLU, [length (node_list g) + 1], length (node_list g) + 2),
                 (StubConv (ops self) (e * p) (e * p) 3 (Some 1) (Some 1) (Some (e * p)), [length (node_list g) + 2], length (node_list g) + 3),
                 (StubBatchNorm (ops self) (e * p), [length (node_list g) + 3], length (node_list g) + 4),
                 (StubReLU, [length (node_list g) + 4], length (node_list g) + 5),
                 (StubConv (ops self) (e * p) p 1 (Some 1) (Some 0) None, [length (node_list g) + 5], length (node_list g) + 6),
                 (StubBatchNorm (ops self) p, [length (node_list g) + 6], length (node_list g) + 7)])"
  using assms
  by (simp add: MobileNetV2Generator_make_block_def run_defs new_layers_def
      nth_append Let_def)

lemma MobileNetV2_block_projection:
  assumes "node_id < length (node_list g)" and "inp \<noteq> outp"
  shows "returns (MobileNetV2Generator_make_block R self inp outp e node_id 1) g
           (\<lambda>out g'. out = length (node_list g) + 10 \<and>
              new_layers g g' =
                [(StubConv (ops self) inp (e * inp) 1 (Some 1) (Some 0) None, [node_id], length (node_list g)),
                 (StubBatchNorm (ops self) (e * inp), [length (node_list g)], length (node_list g) + 1),
                 (StubReLU, [length (node_list g) + 1], length (node_list g) + 2),
                 (StubConv (ops self) (e * inp) (e * inp) 3 (Some 1) (Some 1) (Some (e * inp)), [length (node_list g) + 2], length (node_list g) + 3),
                 (StubBatchNorm (ops self) (e * inp), [length (node_list g) + 3], length (node_list g) + 4),
                 (StubReLU, [length (node_list g) + 4], length (node_list g) + 5),
                 (StubConv (ops self) (e * inp) outp 1 (Some 1) (Some 0) None, [length (node_list g) + 5], length (node_list g) + 6),
                 (StubBatchNorm (ops self) outp, [length (node_list g) + 6], length (node_list g) + 7),
                 (StubConv (ops self) inp outp 1 (Some 1) (Some 0) None, [node_id], length (node_list g) + 8),
                 (StubBatchNorm (ops self) outp, [length (node_list g) + 8], length (node_list g) + 9),
                 (StubAdd, [length (node_list g) + 7, length (node_list g) + 9], length (node_list g) + 10)] \<and>
              length (node_list g') = length (node_list g) + 11 \<and>
              node_list g' ! (length (node_list g) + 7) =
                map (conv_extent R 1 (Some 1) (Some 0))
                  (map (conv_extent R 3 (Some 1) (Some 1))
                    (map (conv_extent R 1 (Some 1) (Some 0)) (butlast (node_list g ! node_id))))
                @ [outp] \<and>
              node_list g' ! (length (node_list g) + 9) =
                map (conv_extent R 1 (Some 1) (Some 0)) (butlast (node_list g ! node_id)) @ [outp])"
  using assms
  by (simp add: MobileNetV2Generator_make_block_def run_defs new_layers_def
      nth_append Let_def)

lemma CnnGenerator_Inr:
  "CnnGenerator n shp = Inr self \<Longrightarrow> input_shape self = shp \<and> n_output_node self = n \<and> shp \<noteq> []"
  by (auto simp: CnnGenerator_def and_then_def split: if_splits sum.splits)

lemma ResNetGenerator_Inr:
  "ResNetGenerator n shp = Inr self \<Longrightarrow>
     input_shape self = shp \<and> n_output_node self = n \<and> shp \<noteq> [] \<and>
     in_planes self = 64 \<and> block_expansion self = 1"
  by (auto simp: ResNetGenerator_def and_then_def split: if_splits sum.splits)

lemma DenseNetGenerator_Inr:
  "DenseNetGenerator n shp = Inr self \<Longrightarrow>
     input_shape self = shp \<and> n_output_node self = n \<and> shp \<noteq> [] \<and> num_init_features self = 64"
  by (auto simp: DenseNetGenerator_def and_then_def resolve_def split: if_splits sum.splits)

lemma MobileNetV2Generator_Inr:
  "MobileNetV2Generator n shp = Inr self \<Longrightarrow>
     input_shape self = shp \<and> n_output_node self = n \<and> shp \<noteq> []"
  by (auto simp: MobileNetV2Generator_def and_then_def split: if_splits sum.splits)

lemma rank_constructs:
  assumes "length shp = 2 \<or> length shp = 3 \<or> length shp = 4"
  shows "\<exists>self. CnnGenerator n shp = Inr self"
    and "\<exists>self. ResNetGenerator n shp = Inr self"
    and "\<exists>self. DenseNetGenerator n shp = Inr self"
    and "\<exists>self. MobileNetV2Generator n shp = Inr self"
  using assms
  by (auto simp: CnnGenerator_def ResNetGenerator_def DenseNetGenerator_def
      MobileNetV2Generator_def and_then_def resolve_def)

lemma CnnGenerator_final:
  assumes "length shp = 2 \<or> length shp = 3 \<or> length shp = 4"
    and "\<bar>case depth of None \<Rightarrow> MODEL_LEN | Some d \<Rightarrow> d\<bar> < 2 ^ 1024"
  shows "\<exists>self g. CnnGenerator n shp = Inr self \<and>
           CnnGenerator_generate R self depth width = Inr g \<and>
           final_shape g \<noteq> [] \<and> last (final_shape g) = n"
proof -
  obtain self where self: "CnnGenerator n shp = Inr self"
    using rank_constructs(1) [OF assms(1)] by blast
  then have facts: "input_shape self \<noteq> []" "n_output_node self = n"
    using CnnGenerator_Inr by auto
  obtain p where "int_quarter (case depth of None \<Rightarrow> MODEL_LEN | Some d \<Rightarrow> d) = Inr p"
    using int_quarter_in_range [OF assms(2)] by blast
  then show ?thesis
    using CnnGenerator_generate_ok [of self depth p R width] self facts by auto
qed

lemma ResNetGenerator_final:
  assumes "length shp = 2 \<or> length shp = 3 \<or> length shp = 4"
  shows "\<exists>self g self'. ResNetGenerator n shp = Inr self \<and>
           ResNetGenerator_generate R self depth width = Inr (g, self') \<and>
           final_shape g \<noteq> [] \<and> last (final_shape g) = n"
proof -
  obtain self where self: "ResNetGenerator n shp = Inr self"
    using rank_constructs(2) [OF assms] by blast
  then have "input_shape self \<noteq> []" "n_output_node self = n"
    using ResNetGenerator_Inr by auto
  then show ?thesis
    using ResNetGenerator_generate_ok [of self R depth width] self by auto
qed

lemma DenseNetGenerator_final:
  assumes "length shp = 2 \<or> length shp = 3 \<or> length shp = 4"
  shows "\<exists>self g. DenseNetGenerator n shp = Inr self \<and>
           DenseNetGenerator_generate R self depth width = Inr g \<and>
           final_shape g \<noteq> [] \<and> last (final_shape g) = n"
proof -
  obtain self where self: "DenseNetGenerator n shp = Inr self"
    using rank_constructs(3) [OF assms] by blast
  then have "input_shape self \<noteq> []" "n_output_node self = n"
    using DenseNetGenerator_Inr by auto
  then show ?thesis
    using DenseNetGenerator_generate_ok [of self R depth width] self by auto
qed

lemma MobileNetV2Generator_final:
  assumes "length shp = 2 \<or> length shp = 3 \<or> length shp = 4"
  shows "\<exists>self g self'. MobileNetV2Generator n shp = Inr self \<and>
           MobileNetV2Generator_generate R self depth width = Inr (g, self') \<and>
           final_shape g \<noteq> [] \<and> last (final_shape g) = n"
proof -
  obtain self where self: "MobileNetV2Generator n shp = Inr self"
    using rank_constructs(4) [OF assms] by blast
  then have "input_shape self \<noteq> []" "n_output_node self = n"
    using MobileNetV2Generator_Inr by auto
  then show ?thesis
    using MobileNetV2Generator_generate_ok [of self R depth width] self by auto
qed

lemma MlpGenerator_final:
  assumes "length shp = 1"
    and "MlpGenerator_widths (case depth of None \<Rightarrow> MODEL_LEN | Some n \<Rightarrow> n)
           (case width of None \<Rightarrow> Width MODEL_WIDTH | Some w \<Rightarrow> w) = Inr ws"
  shows "\<exists>self g. MlpGenerator n shp = Inr self \<and>
           MlpGenerator_generate R self depth width = Inr g \<and>
           final_shape g \<noteq> [] \<and> last (final_shape g) = n"
proof -
  let ?self = "\<lparr>n_output_node = n, input_shape = shp\<rparr>"
  have self: "MlpGenerator n shp = Inr ?self"
    using assms(1) by (simp add: MlpGenerator_def)
  have "input_shape ?self \<noteq> []" using assms(1) by auto
  then show ?thesis
    using MlpGenerator_generate_ok [of ?self depth width ws R] self assms(2) by auto
qed

section \<open>The claims\<close>

text \<open>
  C1. For every template and every supported input rank (2, 3 or 4 for the CNN-family
  templates, 1 for the MLP template), for every width argument and for every rule of
  spatial extents, constructing the generator and then calling generate succeeds, and the
  shape of the final node of the returned graph has the output cardinality as its last
  dimension. The depth is any integer for the ResNet, DenseNet and MobileNet-V2 templates,
  which do not compute with it; for the Plain-CNN template it is of magnitude below
  \<open>2 ^ 1024\<close>, where the division \<^verbatim>\<open>model_len / 4\<close> does not overflow; for the MLP
  template with a single integer width (or the default one) it is from \<open>- (2 ^ 63)\<close> to
  below \<open>2 ^ 60\<close>, where the width can be repeated; and with an explicit width list it is
  the length of the list.
\<close>

theorem generate_final_node_shape:
  "(length shp = 2 \<or> length shp = 3 \<or> length shp = 4 \<longrightarrow>
      (\<bar>case depth of None \<Rightarrow> MODEL_LEN | Some d \<Rightarrow> d\<bar> < 2 ^ 1024 \<longrightarrow>
        (\<exists>self g. CnnGenerator n shp = Inr self \<and>
           CnnGenerator_generate R self depth width = Inr g \<and>
           final_shape g \<noteq> [] \<and> last (final_shape g) = n)) \<and>
      (\<exists>self g self'. ResNetGenerator n shp = Inr self \<and>
         ResNetGenerator_generate R self depth width = Inr (g, self') \<and>
         final_shape g \<noteq> [] \<and> last (final_shape g) = n) \<and>
      (\<exists>self g. DenseNetGenerator n shp = Inr self \<and>
         DenseNetGenerator_generate R self depth width = Inr g \<and>
         final_shape g \<noteq> [] \<and> last (final_shape g) = n) \<and>
      (\<exists>self g self'. MobileNetV2Generator n shp = Inr self \<and>
         MobileNetV2Generator_generate R self depth width = Inr (g, self') \<and>
         final_shape g \<noteq> [] \<and> last (final_shape g) = n)) \<and>
   (length shp = 1 \<longrightarrow>
      (- (2 ^ 63) \<le> (case depth of None \<Rightarrow> MODEL_LEN | Some d \<Rightarrow> d) \<and>
       (case depth of None \<Rightarrow> MODEL_LEN | Some d \<Rightarrow> d) < 2 ^ 60 \<longrightarrow>
        (\<exists>self g. MlpGenerator n shp = Inr self \<and>
           MlpGenerator_generate R self depth None = Inr g \<and>
           final_shape g \<noteq> [] \<and> last (final_shape g) = n) \<and>
        (\<exists>self g. MlpGenerator n shp = Inr self \<and>
           MlpGenerator_generate R self depth (Some (Width w)) = Inr g \<and>
           final_shape g \<noteq> [] \<and> last (final_shape g) = n)) \<and>
      (int (length ws) = (case depth of None \<Rightarrow> MODEL_LEN | Some d \<Rightarrow> d) \<longrightarrow>
        (\<exists>self g. MlpGenerator n shp = Inr self \<and>
           MlpGenerator_generate R self depth (Some (Widths ws)) = Inr g \<and>
           final_shape g \<noteq> [] \<and> last (final_shape g) = n)))"
proof (intro conjI impI)
  assume r: "length shp = 2 \<or> length shp = 3 \<or> length shp = 4"
  show "\<exists>self g self'. ResNetGenerator n shp = Inr self \<and>
         ResNetGenerator_generate R self depth width = Inr (g, self') \<and>
         final_shape g \<noteq> [] \<and> last (final_shape g) = n"
    by (rule ResNetGenerator_final [OF r])
  show "\<exists>self g. DenseNetGenerator n shp = Inr self \<and>
         DenseNetGenerator_generate R self depth width = Inr g \<and>
         final_shape g \<noteq> [] \<and> last (final_shape g) = n"
    by (rule DenseNetGenerator_final [OF r])
  show "\<exists>self g self'. MobileNetV2Generator n shp = Inr self \<and>
         MobileNetV2Generator_generate R self depth width = Inr (g, self') \<and>
         final_shape g \<noteq> [] \<and> last (final_shape g) = n"
    by (rule MobileNetV2Generator_final [OF r])
next
  assume r: "length shp = 2 \<or> length shp = 3 \<or> length shp = 4"
    and d: "\<bar>case depth of None \<Rightarrow> MODEL_LEN | Some d \<Rightarrow> d\<bar> < 2 ^ 1024"
  show "\<exists>self g. CnnGenerator n shp = Inr self \<and>
         CnnGenerator_generate R self depth width = Inr g \<and>
         final_shape g \<noteq> [] \<and> last (final_shape g) = n"
    by (rule CnnGenerator_final [OF r d])
next
  assume r: "length shp = 1"
    and d: "- (2 ^ 63) \<le> (case depth of None \<Rightarrow> MODEL_LEN | Some d \<Rightarrow> d) \<and>
            (case depth of None \<Rightarrow> MODEL_LEN | Some d \<Rightarrow> d) < 2 ^ 60"
  have rep: "list_repeat [v] (case depth of None \<Rightarrow> MODEL_LEN | Some d \<Rightarrow> d)
               = Inr (replicate (nat (case depth of None \<Rightarrow> MODEL_LEN | Some d \<Rightarrow> d)) v)" for v
    using d by (intro list_repeat_singleton) simp_all
  show "\<exists>self g. MlpGenerator n shp = Inr self \<and>
         MlpGenerator_generate R self depth None = Inr g \<and>
         final_shape g \<noteq> [] \<and> last (final_shape g) = n"
    by (rule MlpGenerator_final [OF r]) (simp add: MlpGenerator_widths_def rep)
  show "\<exists>self g. MlpGenerator n shp = Inr self \<and>
         MlpGenerator_generate R self depth (Some (Width w)) = Inr g \<and>
         final_shape g \<noteq> [] \<and> last (final_shape g) = n"
    by (rule MlpGenerator_final [OF r]) (simp add: MlpGenerator_widths_def rep)
next
  assume r: "length shp = 1"
    and l: "int (length ws) = (case depth of None \<Rightarrow> MODEL_LEN | Some d \<Rightarrow> d)"
  show "\<exists>self g. MlpGenerator n shp = Inr self \<and>
         MlpGenerator_generate R self depth (Some (Widths ws)) = Inr g \<and>
         final_shape g \<noteq> [] \<and> last (final_shape g) = n"
    by (rule MlpGenerator_final [OF r, where ws = ws]) (simp add: MlpGenerator_widths_def l)
qed

text \<open>
  C1 on the input shape (32, 32, 3) with depth 8 and width 16 for the four CNN-family
  templates, and on the input shape (4,) with depth 3 for the MLP template, with the
  width 16 and with the widths [8, 16, 32].
\<close>

theorem generate_final_node_shape_witness:
  "(\<exists>self g. CnnGenerator 10 [32, 32, 3] = Inr self \<and>
      CnnGenerator_generate conventional self (Some 8) (Some 16) = Inr g \<and>
      final_shape g \<noteq> [] \<and> last (final_shape g) = 10) \<and>
   (\<exists>self g self'. ResNetGenerator 10 [32, 32, 3] = Inr self \<and>
      ResNetGenerator_generate conventional self (Some 8) (Some 16) = Inr (g, self') \<and>
      final_shape g \<noteq> [] \<and> last (final_shape g) = 10) \<and>
   (\<exists>self g. DenseNetGenerator 10 [32, 32, 3] = Inr self \<and>
      DenseNetGenerator_generate conventional self (Some 8) (Some 16) = Inr g \<and>
      final_shape g \<noteq> [] \<and> last (final_shape g) = 10) \<and>
   (\<exists>self g self'. MobileNetV2Generator 10 [32, 32, 3] = Inr self \<and>
      MobileNetV2Generator_generate conventional self (Some 8) (Some 16) = Inr (g, self') \<and>
      final_shape g \<noteq> [] \<and> last (final_shape g) = 10) \<and>
   (\<exists>self g. MlpGenerator 10 [4] = Inr self \<and>
      MlpGenerator_generate conventional self (Some 3) (Some (Width 16)) = Inr g \<and>
      final_shape g \<noteq> [] \<and> last (final_shape g) = 10) \<and>
   (\<exists>self g. MlpGenerator 10 [4] = Inr self \<and>
      MlpGenerator_generate conventional self (Some 3) (Some (Widths [8, 16, 32])) = Inr g \<and>
      final_shape g \<noteq> [] \<and> last (final_shape g) = 10)"
proof -
  have a: "length [32, 32, 3 :: int] = 2 \<or> length [32, 32, 3 :: int] = 3 \<or> length [32, 32, 3 :: int] = 4"
    by simp
  have a': "\<bar>case Some 8 of None \<Rightarrow> MODEL_LEN | Some d \<Rightarrow> d\<bar> < (2::int) ^ 1024"
    by simp
  have b: "length [4 :: int] = 1" by simp
  have b': "- (2 ^ 63) \<le> (case Some 3 of None \<Rightarrow> MODEL_LEN | Some d \<Rightarrow> d) \<and>
            (case Some 3 of None \<Rightarrow> MODEL_LEN | Some d \<Rightarrow> d) < (2::int) ^ 60"
    by simp
  have c: "int (length [8, 16, 32 :: int]) = (case Some 3 of None \<Rightarrow> MODEL_LEN | Some d \<Rightarrow> d)"
    by simp
  show ?thesis
    using generate_final_node_shape [of "[32, 32, 3]" "Some 8" 10 conventional "Some 16" 0 "[]"] a a'
      generate_final_node_shape [of "[4]" "Some 3" 10 conventional "Some 16" 16 "[8, 16, 32]"] b b' c
    by blast
qed

text \<open>
  C2. The claim: construction fails with \<open>InvalidInputRank\<close> for every input shape of
  rank 0 or rank 5 on every CNN-family template, and for every rank other than 1 on the
  MLP template. \<^verbatim>\<open>CnnGenerator\<close>, \<^verbatim>\<open>ResNetGenerator\<close> and \<^verbatim>\<open>MobileNetV2Generator\<close>
  test both bounds, and \<^verbatim>\<open>MlpGenerator\<close> the upper one: where they test, they fail as
  claimed.
\<close>

lemma rank_checks_present:
  "(length shp = 0 \<or> 5 \<le> length shp \<longrightarrow>
      (\<exists>e. CnnGenerator n shp = Inl e \<and> InvalidInputRank e) \<and>
      (\<exists>e. ResNetGenerator n shp = Inl e \<and> InvalidInputRank e) \<and>
      (\<exists>e. MobileNetV2Generator n shp = Inl e \<and> InvalidInputRank e)) \<and>
   (2 \<le> length shp \<longrightarrow> (\<exists>e. MlpGenerator n shp = Inl e \<and> InvalidInputRank e))"
  by (auto simp: CnnGenerator_def ResNetGenerator_def MobileNetV2Generator_def MlpGenerator_def
      InvalidInputRank_def)

text \<open>
  C2, at the inputs where the code departs from the claim. \<^verbatim>\<open>MlpGenerator.__init__\<close>
  has no lower bound, so the empty shape constructs; \<^verbatim>\<open>DenseNetGenerator.__init__\<close> has
  no rank test at all, so at rank 5 and rank 0 the only failure left is the resolver's,
  which is not \<open>InvalidInputRank\<close>.
\<close>

theorem construction_rank_checks_missing:
  "MlpGenerator 10 [] = Inr \<lparr>n_output_node = 10, input_shape = []\<rparr> \<and>
   DenseNetGenerator 10 [1, 2, 3, 4, 5] = Inl UnsupportedRank \<and>
   DenseNetGenerator 10 [] = Inl UnsupportedRank \<and>
   \<not> InvalidInputRank UnsupportedRank"
  by (simp add: MlpGenerator_def DenseNetGenerator_def and_then_def resolve_def InvalidInputRank_def)

text \<open>
  C3. The claim: two calls of generate with the same arguments on a fresh instance give
  the same graph, generate leaving the generator as it was. \<^verbatim>\<open>ResNetGenerator\<close> and
  \<^verbatim>\<open>MobileNetV2Generator\<close> assign \<^verbatim>\<open>self.in_planes\<close> while they build and never set
  it back. Evaluated on the input shape (32, 32, 3) with 10 outputs: the first block of
  the second ResNet graph normalizes over 512 channels where the first graph has 64, and
  the first convolution of the second MobileNet-V2 graph has 24 filters where the first
  graph has 32, so the shape of its node 1 differs as well.
\<close>

lemma ResNetGenerator_second_call:
  "and_then (ResNetGenerator 10 [32, 32, 3]) (\<lambda>self.
     map_sum id (map_prod (\<lambda>g. descriptors g ! 2) (\<lambda>g. descriptors g ! 2))
       (ResNetGenerator_generate_twice conventional self None None))
     = Inr (StubBatchNorm Rank2d 64, StubBatchNorm Rank2d 512)"
  by code_simp

lemma MobileNetV2Generator_second_call:
  "and_then (MobileNetV2Generator 10 [32, 32, 3]) (\<lambda>self.
     map_sum id (map_prod (\<lambda>g. (descriptors g ! 0, node_list g ! 1))
                          (\<lambda>g. (descriptors g ! 0, node_list g ! 1)))
       (MobileNetV2Generator_generate_twice conventional self None None))
     = Inr ((StubConv Rank2d 3 32 3 (Some 1) (Some 1) None, [32, 32, 32]),
            (StubConv Rank2d 3 24 3 (Some 1) (Some 1) None, [32, 32, 24]))"
  by code_simp

text \<open>
  C3, the two templates together: calling generate twice on one instance gives two
  different graphs.
\<close>

theorem generate_twice_differs:
  "and_then (ResNetGenerator 10 [32, 32, 3]) (\<lambda>self.
     map_sum id (map_prod (\<lambda>g. descriptors g ! 2) (\<lambda>g. descriptors g ! 2))
       (ResNetGenerator_generate_twice conventional self None None))
     = Inr (StubBatchNorm Rank2d 64, StubBatchNorm Rank2d 512) \<and>
   and_then (MobileNetV2Generator 10 [32, 32, 3]) (\<lambda>self.
     map_sum id (map_prod (\<lambda>g. (descriptors g ! 0, node_list g ! 1))
                          (\<lambda>g. (descriptors g ! 0, node_list g ! 1)))
       (MobileNetV2Generator_generate_twice conventional self None None))
     = Inr ((StubConv Rank2d 3 32 3 (Some 1) (Some 1) None, [32, 32, 32]),
            (StubConv Rank2d 3 24 3 (Some 1) (Some 1) None, [32, 32, 24]))"
  using ResNetGenerator_second_call MobileNetV2Generator_second_call by (rule conjI)

text \<open>
  C4. In the MobileNet-V2 template, a block built with stride 1 on an existing node adds,
  when \<open>in_planes = out_planes\<close>, the eight operators of the main branch and no
  elementwise add; its output is the last normalization. When \<open>in_planes \<noteq> out_planes\<close>
  it adds the same main branch, then the kernel-1 projection convolution on the block's
  original input and its normalization, then exactly one elementwise add, which is the
  block's output. The first predecessor of the add is the main branch's output (the
  normalization after the \<open>planes\<close> to \<open>out_planes\<close> convolution) and the second is the
  shortcut's normalization. The two have the same shape under every rule of spatial
  extents for which a kernel-1, stride-1, padding-0 convolution and a kernel-3, stride-1,
  padding-1 convolution keep an extent.
\<close>

theorem MobileNetV2_block_shortcut:
  "node_id < length (node_list g) \<longrightarrow>
     (\<exists>g'. MobileNetV2Generator_make_block R self p p e node_id 1 g
             = Inr (length (node_list g) + 7, g') \<and>
        new_layers g g' =
          [(StubConv (ops self) p (e * p) 1 (Some 1) (Some 0) None, [node_id], length (node_list g)),
           (StubBatchNorm (ops self) (e * p), [length (node_list g)], length (node_list g) + 1),
           (StubReLU, [length (node_list g) + 1], length (node_list g) + 2),
           (StubConv (ops self) (e * p) (e * p) 3 (Some 1) (Some 1) (Some (e * p)), [length (node_list g) + 2], length (node_list g) + 3),
           (StubBatchNorm (ops self) (e * p), [length (node_list g) + 3], length (node_list g) + 4),
           (StubReLU, [length (node_list g) + 4], length (node_list g) + 5),
           (StubConv (ops self) (e * p) p 1 (Some 1) (Some 0) None, [length (node_list g) + 5], length (node_list g) + 6),
           (StubBatchNorm (ops self) p, [length (node_list g) + 6], length (node_list g) + 7)] \<and>
        filter is_add (new_layers g g') = []) \<and>
     (inp \<noteq> outp \<longrightarrow>
       (\<exists>g'. MobileNetV2Generator_make_block R self inp outp e node_id 1 g
               = Inr (length (node_list g) + 10, g') \<and>
          new_layers g g' =
            [(StubConv (ops self) inp (e * inp) 1 (Some 1) (Some 0) None, [node_id], length (node_list g)),
             (StubBatchNorm (ops self) (e * inp), [length (node_list g)], length (node_list g) + 1),
             (StubReLU, [length (node_list g) + 1], length (node_list g) + 2),
             (StubConv (ops self) (e * inp) (e * inp) 3 (Some 1) (Some 1) (Some (e * inp)), [length (node_list g) + 2], length (node_list g) + 3),
             (StubBatchNorm (ops self) (e * inp), [length (node_list g) + 3], length (node_list g) + 4),
             (StubReLU, [length (node_list g) + 4], length (node_list g) + 5),
             (StubConv (ops self) (e * inp) outp 1 (Some 1) (Some 0) None, [length (node_list g) + 5], length (node_list g) + 6),
             (StubBatchNorm (ops self) outp, [length (node_list g) + 6], length (node_list g) + 7),
             (StubConv (ops self) inp outp 1 (Some 1) (Some 0) None, [node_id], length (node_list g) + 8),
             (StubBatchNorm (ops self) outp, [length (node_list g) + 8], length (node_list g) + 9),
             (StubAdd, [length (node_list g) + 7, length (node_list g) + 9], length (node_list g) + 10)] \<and>
          filter is_add (new_layers g g') =
            [(StubAdd, [length (node_list g) + 7, length (node_list g) + 9], length (node_list g) + 10)] \<and>
          length (node_list g') = length (node_list g) + 11 \<and>
          ((\<forall>d. conv_extent R 1 (Some 1) (Some 0) d = d) \<and>
           (\<forall>d. conv_extent R 3 (Some 1) (Some 1) d = d) \<longrightarrow>
           node_list g' ! (length (node_list g) + 7)
             = node_list g' ! (length (node_list g) + 9))))"
proof (intro impI conjI)
  assume valid: "node_id < length (node_list g)"
  from returnsD [OF MobileNetV2_block_same_planes [OF valid, of R self p e]]
  obtain g' where run:
      "MobileNetV2Generator_make_block R self p p e node_id 1 g
         = Inr (length (node_list g) + 7, g')"
    and layers: "new_layers g g' =
          [(StubConv (ops self) p (e * p) 1 (Some 1) (Some 0) None, [node_id], length (node_list g)),
           (StubBatchNorm (ops self) (e * p), [length (node_list g)], length (node_list g) + 1),
           (StubReLU, [length (node_list g) + 1], length (node_list g) + 2),
           (StubConv (ops self) (e * p) (e * p) 3 (Some 1) (Some 1) (Some (e * p)), [length (node_list g) + 2], length (node_list g) + 3),
           (StubBatchNorm (ops self) (e * p), [length (node_list g) + 3], length (node_list g) + 4),
           (StubReLU, [length (node_list g) + 4], length (node_list g) + 5),
           (StubConv (ops self) (e * p) p 1 (Some 1) (Some 0) None, [length (node_list g) + 5], length (node_list g) + 6),
           (StubBatchNorm (ops self) p, [length (node_list g) + 6], length (node_list g) + 7)]"
    by blast
  have "filter is_add (new_layers g g') = []"
    unfolding layers by (simp add: is_add_def)
  with run layers show "(\<exists>g'. MobileNetV2Generator_make_block R self p p e node_id 1 g
             = Inr (length (node_list g) + 7, g') \<and>
        new_layers g g' =
          [(StubConv (ops self) p (e * p) 1 (Some 1) (Some 0) None, [node_id], length (node_list g)),
           (StubBatchNorm (ops self) (e * p), [length (node_list g)], length (node_list g) + 1),
           (StubReLU, [length (node_list g) + 1], length (node_list g) + 2),
           (StubConv (ops self) (e * p) (e * p) 3 (Some 1) (Some 1) (Some (e * p)), [length (node_list g) + 2], length (node_list g) + 3),
           (StubBatchNorm (ops self) (e * p), [length (node_list g) + 3], length (node_list g) + 4),
           (StubReLU, [length (node_list g) + 4], length (node_list g) + 5),
           (StubConv (ops self) (e * p) p 1 (Some 1) (Some 0) None, [length (node_list g) + 5], length (node_list g) + 6),
           (StubBatchNorm (ops self) p, [length (node_list g) + 6], length (node_list g) + 7)] \<and>
        filter is_add (new_layers g g') = [])"
    by blast
next
  assume valid: "node_id < length (node_list g)" and differ: "inp \<noteq> outp"
  from returnsD [OF MobileNetV2_block_projection [OF valid differ, of R self e]]
  obtain g' where run:
      "MobileNetV2Generator_make_block R self inp outp e node_id 1 g
         = Inr (length (node_list g) + 10, g')"
    and layers: "new_layers g g' =
          [(StubConv (ops self) inp (e * inp) 1 (Some 1) (Some 0) None, [node_id], length (node_list g)),
           (StubBatchNorm (ops self) (e * inp), [length (node_list g)], length (node_list g) + 1),
           (StubReLU, [length (node_list g) + 1], length (node_list g) + 2),
           (StubConv (ops self) (e * inp) (e * inp) 3 (Some 1) (Some 1) (Some (e * inp)), [length (node_list g) + 2], length (node_list g) + 3),
           (StubBatchNorm (ops self) (e * inp), [length (node_list g) + 3], length (node_list g) + 4),
           (StubReLU, [length (node_list g) + 4], length (node_list g) + 5),
           (StubConv (ops self) (e * inp) outp 1 (Some 1) (Some 0) None, [length (node_list g) + 5], length (node_list g) + 6),
           (StubBatchNorm (ops self) outp, [length (node_list g) + 6], length (node_list g) + 7),
           (StubConv (ops self) inp outp 1 (Some 1) (Some 0) None, [node_id], length (node_list g) + 8),
           (StubBatchNorm (ops self) outp, [length (node_list g) + 8], length (node_list g) + 9),
           (StubAdd, [length (node_list g) + 7, length (node_list g) + 9], length (node_list g) + 10)]"
    and len: "length (node_list g') = length (node_list g) + 11"
    and main: "node_list g' ! (length (node_list g) + 7) =
        map (conv_extent R 1 (Some 1) (Some 0))
          (map (conv_extent R 3 (Some 1) (Some 1))
            (map (conv_extent R 1 (Some 1) (Some 0)) (butlast (node_list g ! node_id))))
        @ [outp]"
    and shortcut: "node_list g' ! (length (node_list g) + 9) =
        map (conv_extent R 1 (Some 1) (Some 0)) (butlast (node_list g ! node_id)) @ [outp]"
    by blast
  have adds: "filter is_add (new_layers g g') =
          [(StubAdd, [length (node_list g) + 7, length (node_list g) + 9], length (node_list g) + 10)]"
    unfolding layers by (simp add: is_add_def)
  have same: "node_list g' ! (length (node_list g) + 7)
                = node_list g' ! (length (node_list g) + 9)"
    if "(\<forall>d. conv_extent R 1 (Some 1) (Some 0) d = d) \<and>
        (\<forall>d. conv_extent R 3 (Some 1) (Some 1) d = d)"
  proof -
    have "conv_extent R 1 (Some 1) (Some 0) = (\<lambda>d. d)" "conv_extent R 3 (Some 1) (Some 1) = (\<lambda>d. d)"
      using that by auto
    then show ?thesis by (simp add: main shortcut)
  qed
  from run layers adds len same show "(\<exists>g'. MobileNetV2Generator_make_block R self inp outp e node_id 1 g
               = Inr (length (node_list g) + 10, g') \<and>
          new_layers g g' =
            [(StubConv (ops self) inp (e * inp) 1 (Some 1) (Some 0) None, [node_id], length (node_list g)),
             (StubBatchNorm (ops self) (e * inp), [length (node_list g)], length (node_list g) + 1),
             (StubReLU, [length (node_list g) + 1], length (node_list g) + 2),
             (StubConv (ops self) (e * inp) (e * inp) 3 (Some 1) (Some 1) (Some (e * inp)), [length (node_list g) + 2], length (node_list g) + 3),
             (StubBatchNorm (ops self) (e * inp), [length (node_list g) + 3], length (node_list g) + 4),
             (StubReLU, [length (node_list g) + 4], length (node_list g) + 5),
             (StubConv (ops self) (e * inp) outp 1 (Some 1) (Some 0) None, [length (node_list g) + 5], length (node_list g) + 6),
             (StubBatchNorm (ops self) outp, [length (node_list g) + 6], length (node_list g) + 7),
             (StubConv (ops self) inp outp 1 (Some 1) (Some 0) None, [node_id], length (node_list g) + 8),
             (StubBatchNorm (ops self) outp, [length (node_list g) + 8], length (node_list g) + 9),
             (StubAdd, [length (node_list g) + 7, length (node_list g) + 9], length (node_list g) + 10)] \<and>
          filter is_add (new_layers g g') =
            [(StubAdd, [length (node_list g) + 7, length (node_list g) + 9], length (node_list g) + 10)] \<and>
          length (node_list g') = length (node_list g) + 11 \<and>
          ((\<forall>d. conv_extent R 1 (Some 1) (Some 0) d = d) \<and>
           (\<forall>d. conv_extent R 3 (Some 1) (Some 1) d = d) \<longrightarrow>
           node_list g' ! (length (node_list g) + 7)
             = node_list g' ! (length (node_list g) + 9)))"
    by blast
qed

text \<open>
  C4 at the input shape (8, 8, 32) under the conventional arithmetic, with expansion 6: a
  block 24 to 24 ends on node 8 without an add, and a block 32 to 16 ends on node 11, the
  add of nodes 8 and 10, which have the same shape.
\<close>

theorem MobileNetV2_block_shortcut_witness:
  "(\<exists>g'. MobileNetV2Generator_make_block conventional
        \<lparr>n_output_node = 10, input_shape = [8, 8, 32], n_dim = 2, ops = Rank2d,
         in_planes = 24, block_expansion = 1, cfg = [(1, 16, 1, 1), (6, 24, 2, 1)]\<rparr>
        24 24 6 0 1 (Graph [8, 8, 32] False) = Inr (8, g') \<and>
      filter is_add (new_layers (Graph [8, 8, 32] False) g') = []) \<and>
   (\<exists>g'. MobileNetV2Generator_make_block conventional
        \<lparr>n_output_node = 10, input_shape = [8, 8, 32], n_dim = 2, ops = Rank2d,
         in_planes = 24, block_expansion = 1, cfg = [(1, 16, 1, 1), (6, 24, 2, 1)]\<rparr>
        32 16 6 0 1 (Graph [8, 8, 32] False) = Inr (11, g') \<and>
      filter is_add (new_layers (Graph [8, 8, 32] False) g') = [(StubAdd, [8, 10], 11)] \<and>
      node_list g' ! 8 = node_list g' ! 10)"
proof -
  let ?self = "\<lparr>n_output_node = 10, input_shape = [8, 8, 32], n_dim = 2, ops = Rank2d,
         in_planes = 24, block_expansion = 1, cfg = [(1, 16, 1, 1), (6, 24, 2, 1)]\<rparr>"
  have k: "length (node_list (Graph [8, 8, 32] False)) = 1"
    by (simp add: Graph_def)
  have valid: "0 < length (node_list (Graph [8, 8, 32] False))"
    by (simp add: Graph_def)
  have differ: "(32 :: int) \<noteq> 16" by simp
  have rules: "(\<forall>d. conv_extent conventional 1 (Some 1) (Some 0) d = d) \<and>
               (\<forall>d. conv_extent conventional 3 (Some 1) (Some 1) d = d)"
    by (simp add: conventional_def)
  show ?thesis
    using MobileNetV2_block_shortcut
      [of 0 "Graph [8, 8, 32] False" conventional ?self 24 6 32 16] valid differ rules
    unfolding k by (simp only: one_add_one numeral_plus_numeral add_num_simps
        numeral_plus_one one_plus_numeral) blast
qed

text \<open>
  C5. In the DenseNet template, on a node whose channel count is \<open>num_input_features\<close>:
  a dense block of \<open>num_layers\<close> dense layers ends on a node with
  \<open>num_input_features + num_layers * growth_rate\<close> channels; one dense layer concatenates
  its own input with its branch and adds \<open>growth_rate\<close> channels; a transition ends on a
  node with the channel count it is asked for; and one pass of the loop of generate calls
  the transition, on every block but the last, with that count halved by floor division,
  keeps the halved value as \<open>num_features\<close>, and ends on a node with exactly
  \<open>num_features\<close> channels.
\<close>

theorem densenet_channel_accounting:
  "node_ok g input_node_id \<and> last (node_list g ! input_node_id) = num_input_features \<longrightarrow>
     (\<exists>out g'. DenseNetGenerator_dense_block R self num_layers num_input_features bs gr dr
                  input_node_id g = Inr (out, g') \<and>
        last (node_list g' ! out) = num_input_features + int num_layers * gr) \<and>
     (\<exists>out prev g'. DenseNetGenerator_dense_layer R self num_input_features gr bs dr
                  input_node_id g = Inr (out, g') \<and>
        last (layer_list g') = (StubConcatenate, [input_node_id, prev], out) \<and>
        last (node_list g' ! out) = num_input_features + gr) \<and>
     (\<exists>out g'. DenseNetGenerator_transition R self num_input_features num_output_features
                  input_node_id g = Inr (out, g') \<and>
        last (node_list g' ! out) = num_output_features) \<and>
     (\<exists>out num_features g'.
        DenseNetGenerator_stage R self (i, num_layers) (input_node_id, num_input_features) g
          = Inr ((out, num_features), g') \<and>
        num_features =
          (if int i \<noteq> int (length (block_config self)) - 1
           then (num_input_features + int num_layers * growth_rate self) div 2
           else num_input_features + int num_layers * growth_rate self) \<and>
        last (node_list g' ! out) = num_features)"
proof (intro impI conjI; elim conjE)
  assume ok: "node_ok g input_node_id"
    and ch: "last (node_list g ! input_node_id) = num_input_features"
  show "\<exists>out g'. DenseNetGenerator_dense_block R self num_layers num_input_features bs gr dr
                  input_node_id g = Inr (out, g') \<and>
        last (node_list g' ! out) = num_input_features + int num_layers * gr"
    using returnsD [OF DenseNetGenerator_dense_block_ok [OF ok, of R self num_layers
          num_input_features bs gr dr]] ch by auto
  show "\<exists>out prev g'. DenseNetGenerator_dense_layer R self num_input_features gr bs dr
                  input_node_id g = Inr (out, g') \<and>
        last (layer_list g') = (StubConcatenate, [input_node_id, prev], out) \<and>
        last (node_list g' ! out) = num_input_features + gr"
    using returnsD [OF DenseNetGenerator_dense_layer_ok [OF ok, of R self
          num_input_features gr bs dr]] ch by auto
  show "\<exists>out g'. DenseNetGenerator_transition R self num_input_features num_output_features
                  input_node_id g = Inr (out, g') \<and>
        last (node_list g' ! out) = num_output_features"
    using returnsD [OF DenseNetGenerator_transition_ok [OF ok, of R self
          num_input_features num_output_features]] by auto
  show "\<exists>out num_features g'.
        DenseNetGenerator_stage R self (i, num_layers) (input_node_id, num_input_features) g
          = Inr ((out, num_features), g') \<and>
        num_features =
          (if int i \<noteq> int (length (block_config self)) - 1
           then (num_input_features + int num_layers * growth_rate self) div 2
           else num_input_features + int num_layers * growth_rate self) \<and>
        last (node_list g' ! out) = num_features"
    using returnsD [OF DenseNetGenerator_stage_ok [OF ok, of R self i num_layers
          num_input_features]] ch by fastforce
qed

text \<open>
  C5 on a graph whose input has 64 channels: the first block (6 layers, growth rate 32)
  reaches 256 channels, and the first pass of the loop ends with 128.
\<close>

theorem densenet_channel_accounting_witness:
  "(\<exists>out g'. DenseNetGenerator_dense_block conventional
       \<lparr>n_output_node = 10, input_shape = [8, 8, 64], n_dim = 2, ops = Rank2d,
        num_init_features = 64, growth_rate = 32, block_config = [6, 12, 24, 16],
        bn_size = 4, drop_rate = 0\<rparr>
       6 64 4 32 0 0 (Graph [8, 8, 64] False) = Inr (out, g') \<and>
      last (node_list g' ! out) = 256) \<and>
   (\<exists>out num_features g'. DenseNetGenerator_stage conventional
       \<lparr>n_output_node = 10, input_shape = [8, 8, 64], n_dim = 2, ops = Rank2d,
        num_init_features = 64, growth_rate = 32, block_config = [6, 12, 24, 16],
        bn_size = 4, drop_rate = 0\<rparr>
       (0, 6) (0, 64) (Graph [8, 8, 64] False) = Inr ((out, num_features), g') \<and>
      num_features = 128 \<and> last (node_list g' ! out) = 128)"
proof -
  let ?self = "\<lparr>n_output_node = 10, input_shape = [8, 8, 64], n_dim = 2, ops = Rank2d,
        num_init_features = 64, growth_rate = 32, block_config = [6, 12, 24, 16],
        bn_size = 4, drop_rate = 0\<rparr>"
  have start: "node_ok (Graph [8, 8, 64] False) 0 \<and>
               last (node_list (Graph [8, 8, 64] False) ! 0) = 64"
    by (simp add: node_ok_def Graph_def)
  show ?thesis
    using densenet_channel_accounting
      [of "Graph [8, 8, 64] False" 0 64 conventional ?self 6 4 32 0 32 0] start
    by simp
qed

text \<open>
  C6. In the ResNet template, a fresh generator has \<open>in_planes = 64\<close>; after one
  generation with the default width 64 its \<open>in_planes\<close> is 64 * 2 * 2 * 2 = 512, and the
  final dense layer's declared input size is 512. With an explicit width \<open>w\<close> both are
  \<open>w * 2 * 2 * 2\<close>.
\<close>

theorem resnet_in_planes_after_generate:
  "ResNetGenerator n shp = Inr self \<longrightarrow>
     in_planes self = 64 \<and>
     (\<exists>g self'. ResNetGenerator_generate R self depth None = Inr (g, self') \<and>
        in_planes self' = 64 * 2 * 2 * 2 \<and> in_planes self' = 512 \<and>
        fst (last (layer_list g)) = StubDense 512 n) \<and>
     (\<exists>g self'. ResNetGenerator_generate R self depth (Some w) = Inr (g, self') \<and>
        in_planes self' = w * 2 * 2 * 2 \<and>
        fst (last (layer_list g)) = StubDense (w * 2 * 2 * 2) n)"
proof (intro impI conjI)
  assume made: "ResNetGenerator n shp = Inr self"
  then have facts: "input_shape self \<noteq> []" "n_output_node self = n" "in_planes self = 64"
      "block_expansion self = 1"
    using ResNetGenerator_Inr by auto
  show "in_planes self = 64" by (rule facts)
  show "\<exists>g self'. ResNetGenerator_generate R self depth None = Inr (g, self') \<and>
        in_planes self' = 64 * 2 * 2 * 2 \<and> in_planes self' = 512 \<and>
        fst (last (layer_list g)) = StubDense 512 n"
    using ResNetGenerator_generate_ok [OF facts(1), of R depth None] facts(2,4)
    by (auto simp: MODEL_WIDTH_def)
  show "\<exists>g self'. ResNetGenerator_generate R self depth (Some w) = Inr (g, self') \<and>
        in_planes self' = w * 2 * 2 * 2 \<and>
        fst (last (layer_list g)) = StubDense (w * 2 * 2 * 2) n"
    using ResNetGenerator_generate_ok [OF facts(1), of R depth "Some w"] facts(2,4)
    by auto
qed

text \<open>
  C6 on the input shape (32, 32, 3) with 10 outputs and the default width.
\<close>

theorem resnet_in_planes_after_generate_witness:
  "ResNetGenerator 10 [32, 32, 3] =
     Inr \<lparr>n_output_node = 10, input_shape = [32, 32, 3], n_dim = 2, ops = Rank2d,
          in_planes = 64, block_expansion = 1\<rparr> \<and>
   (\<exists>g self'. ResNetGenerator_generate conventional
        \<lparr>n_output_node = 10, input_shape = [32, 32, 3], n_dim = 2, ops = Rank2d,
         in_planes = 64, block_expansion = 1\<rparr> None None = Inr (g, self') \<and>
      in_planes self' = 512 \<and> fst (last (layer_list g)) = StubDense 512 10)"
proof -
  let ?self = "\<lparr>n_output_node = 10, input_shape = [32, 32, 3], n_dim = 2, ops = Rank2d,
          in_planes = 64, block_expansion = 1\<rparr>"
  have made: "ResNetGenerator 10 [32, 32, 3] = Inr ?self"
    by (simp add: ResNetGenerator_def and_then_def resolve_def)
  show ?thesis
    using resnet_in_planes_after_generate [of 10 "[32, 32, 3]" ?self conventional None 64] made
    by blast
qed

text \<open>
  C7, as claimed: that with depth 8, width 16, input shape (32, 32, 3) and 10 outputs the
  final two operators of the Plain-CNN graph are a dense layer with output size 16 and a
  dense layer mapping 16 to 10. They are not: an activation stands between the two dense
  layers, so the last two operators are the activation and the final dense layer.
\<close>

lemma CnnGenerator_last_two_layers:
  "and_then (CnnGenerator 10 [32, 32, 3]) (\<lambda>self.
     map_sum id (\<lambda>g. drop (length (descriptors g) - 2) (descriptors g))
       (CnnGenerator_generate conventional self (Some 8) (Some 16)))
     = Inr [StubReLU, StubDense 16 10]"
  by code_simp

theorem cnn_final_layers_counterexample:
  "and_then (CnnGenerator 10 [32, 32, 3]) (\<lambda>self.
     map_sum id (\<lambda>g. drop (length (descriptors g) - 2) (descriptors g))
       (CnnGenerator_generate conventional self (Some 8) (Some 16)))
     = Inr [StubReLU, StubDense 16 10] \<and>
   and_then (CnnGenerator 10 [32, 32, 3]) (\<lambda>self.
     map_sum id (\<lambda>g. drop (length (descriptors g) - 2) (descriptors g))
       (CnnGenerator_generate conventional self (Some 8) (Some 16)))
     \<noteq> Inr [StubDense 16 16, StubDense 16 10]"
  by (simp add: CnnGenerator_last_two_layers)

text \<open>
  C7, amended. With depth 8, width 16, input shape (32, 32, 3) and 10 outputs, the
  Plain-CNN graph has a pooling operator after iterations 2, 4 and 6 and none after
  iteration 8, and it ends with the global pooling, the dropout, a dense layer 16 to 16,
  an activation and a dense layer 16 to 10. The whole sequence of operators, for every
  rule of spatial extents:
\<close>

theorem cnn_depth8_layers:
  "and_then (CnnGenerator 10 [32, 32, 3]) (\<lambda>self.
     map_sum id descriptors (CnnGenerator_generate R self (Some 8) (Some 16))) = Inr
     [
      StubReLU, StubBatchNorm Rank2d 3, StubConv Rank2d 3 16 3 (Some 1) None None,
      StubReLU, StubBatchNorm Rank2d 16, StubConv Rank2d 16 16 3 (Some 1) None None, StubPooling Rank2d None None None,
      StubReLU, StubBatchNorm Rank2d 16, StubConv Rank2d 16 16 3 (Some 1) None None,
      StubReLU, StubBatchNorm Rank2d 16, StubConv Rank2d 16 16 3 (Some 1) None None, StubPooling Rank2d None None None,
      StubReLU, StubBatchNorm Rank2d 16, StubConv Rank2d 16 16 3 (Some 1) None None,
      StubReLU, StubBatchNorm Rank2d 16, StubConv Rank2d 16 16 3 (Some 1) None None, StubPooling Rank2d None None None,
      StubReLU, StubBatchNorm Rank2d 16, StubConv Rank2d 16 16 3 (Some 1) None None,
      StubReLU, StubBatchNorm Rank2d 16, StubConv Rank2d 16 16 3 (Some 1) None None,
      StubGlobalPooling Rank2d, StubDropout Rank2d CONV_DROPOUT_RATE, StubDense 16 16, StubReLU, StubDense 16 10]"
  by code_simp

text \<open>
  C8. In the MLP template, an explicit width list whose length differs from the requested
  depth (the default depth when none is given) makes generate fail with
  \<open>WidthLengthMismatch\<close>. A list of the requested length on a rank-1 input succeeds and
  builds, for each width in order, a dense layer from the previous size to that width, a
  dropout and an activation, then the final dense layer to the output cardinality. A
  single integer width never gives \<open>WidthLengthMismatch\<close>; on a rank-1 input, with a depth
  from \<open>- (2 ^ 63)\<close> to below \<open>2 ^ 60\<close>, generate succeeds and builds that same stack with
  the one width repeated for every one of the \<open>depth\<close> layers.
\<close>

theorem mlp_width_length:
  "(int (length ws) \<noteq> (case depth of None \<Rightarrow> MODEL_LEN | Some d \<Rightarrow> d) \<longrightarrow>
      MlpGenerator_generate R self depth (Some (Widths ws)) = Inl WidthLengthMismatch) \<and>
   (int (length ws) = (case depth of None \<Rightarrow> MODEL_LEN | Some d \<Rightarrow> d) \<and> length (input_shape self) = 1 \<longrightarrow>
      (\<exists>g. MlpGenerator_generate R self depth (Some (Widths ws)) = Inr g \<and>
         descriptors g = spec_mlp_stack (hd (input_shape self)) ws (n_output_node self))) \<and>
   MlpGenerator_generate R self depth (Some (Width w)) \<noteq> Inl WidthLengthMismatch \<and>
   (length (input_shape self) = 1 \<and> - (2 ^ 63) \<le> (case depth of None \<Rightarrow> MODEL_LEN | Some d \<Rightarrow> d) \<and> (case depth of None \<Rightarrow> MODEL_LEN | Some d \<Rightarrow> d) < 2 ^ 60 \<longrightarrow>
      (\<exists>g. MlpGenerator_generate R self depth (Some (Width w)) = Inr g \<and>
         descriptors g =
           spec_mlp_stack (hd (input_shape self)) (replicate (nat (case depth of None \<Rightarrow> MODEL_LEN | Some d \<Rightarrow> d)) w)
             (n_output_node self)))"
proof (intro conjI impI)
  assume "int (length ws) \<noteq> (case depth of None \<Rightarrow> MODEL_LEN | Some d \<Rightarrow> d)"
  then show "MlpGenerator_generate R self depth (Some (Widths ws)) = Inl WidthLengthMismatch"
    by (simp add: MlpGenerator_generate_def MlpGenerator_widths_def and_then_def)
next
  assume a: "int (length ws) = (case depth of None \<Rightarrow> MODEL_LEN | Some d \<Rightarrow> d) \<and> length (input_shape self) = 1"
  then have "input_shape self \<noteq> []" by auto
  then show "\<exists>g. MlpGenerator_generate R self depth (Some (Widths ws)) = Inr g \<and>
         descriptors g = spec_mlp_stack (hd (input_shape self)) ws (n_output_node self)"
    using MlpGenerator_generate_ok [of self depth "Some (Widths ws)" ws R] a
    by (auto simp: MlpGenerator_widths_def)
next
  show "MlpGenerator_generate R self depth (Some (Width w)) \<noteq> Inl WidthLengthMismatch"
  proof (cases "list_repeat [w] (case depth of None \<Rightarrow> MODEL_LEN | Some d \<Rightarrow> d)")
    case (Inl e)
    then have "e \<noteq> WidthLengthMismatch"
      using list_repeat_not_mismatch [of "[w]" "(case depth of None \<Rightarrow> MODEL_LEN | Some d \<Rightarrow> d)"] by auto
    then show ?thesis
      using Inl by (simp add: MlpGenerator_generate_def MlpGenerator_widths_def and_then_def)
  next
    case (Inr widths)
    show ?thesis
    proof (cases "input_shape self = []")
      case True
      then show ?thesis
        using Inr
        by (simp add: MlpGenerator_generate_def MlpGenerator_widths_def and_then_def
            index_first_def)
    next
      case False
      then show ?thesis
        using MlpGenerator_generate_ok [of self depth "Some (Width w)" widths R] Inr
        by (auto simp: MlpGenerator_widths_def)
    qed
  qed
next
  assume a: "length (input_shape self) = 1 \<and> - (2 ^ 63) \<le> (case depth of None \<Rightarrow> MODEL_LEN | Some d \<Rightarrow> d) \<and> (case depth of None \<Rightarrow> MODEL_LEN | Some d \<Rightarrow> d) < 2 ^ 60"
  then have ne: "input_shape self \<noteq> []" by auto
  have rep: "list_repeat [w] (case depth of None \<Rightarrow> MODEL_LEN | Some d \<Rightarrow> d) = Inr (replicate (nat (case depth of None \<Rightarrow> MODEL_LEN | Some d \<Rightarrow> d)) w)"
    using a by (intro list_repeat_singleton) simp_all
  show "\<exists>g. MlpGenerator_generate R self depth (Some (Width w)) = Inr g \<and>
         descriptors g =
           spec_mlp_stack (hd (input_shape self)) (replicate (nat (case depth of None \<Rightarrow> MODEL_LEN | Some d \<Rightarrow> d)) w)
             (n_output_node self)"
    using MlpGenerator_generate_ok [OF ne, of depth "Some (Width w)"
        "replicate (nat (case depth of None \<Rightarrow> MODEL_LEN | Some d \<Rightarrow> d)) w" R] rep
    by (auto simp: MlpGenerator_widths_def)
qed

text \<open>
  C8 on the input shape (4,) with depth 3 and 10 outputs: the widths [8, 16] fail, the
  widths [8, 16, 32] give three hidden layers of those widths, and the single width 8
  gives three hidden layers of width 8.
\<close>

theorem mlp_width_length_witness:
  "MlpGenerator 10 [4] = Inr \<lparr>n_output_node = 10, input_shape = [4]\<rparr> \<and>
   MlpGenerator_generate conventional \<lparr>n_output_node = 10, input_shape = [4]\<rparr>
      (Some 3) (Some (Widths [8, 16])) = Inl WidthLengthMismatch \<and>
   (\<exists>g. MlpGenerator_generate conventional \<lparr>n_output_node = 10, input_shape = [4]\<rparr>
      (Some 3) (Some (Widths [8, 16, 32])) = Inr g \<and>
      descriptors g =
        [StubDense 4 8, StubDropout1d MLP_DROPOUT_RATE, StubReLU,
         StubDense 8 16, StubDropout1d MLP_DROPOUT_RATE, StubReLU,
         StubDense 16 32, StubDropout1d MLP_DROPOUT_RATE, StubReLU,
         StubDense 32 10]) \<and>
   (\<exists>g. MlpGenerator_generate conventional \<lparr>n_output_node = 10, input_shape = [4]\<rparr>
      (Some 3) (Some (Width 8)) = Inr g \<and>
      descriptors g =
        [StubDense 4 8, StubDropout1d MLP_DROPOUT_RATE, StubReLU,
         StubDense 8 8, StubDropout1d MLP_DROPOUT_RATE, StubReLU,
         StubDense 8 8, StubDropout1d MLP_DROPOUT_RATE, StubReLU,
         StubDense 8 10])"
proof -
  let ?self = "\<lparr>n_output_node = 10, input_shape = [4]\<rparr>"
  have made: "MlpGenerator 10 [4] = Inr ?self"
    by (simp add: MlpGenerator_def)
  have short: "int (length [8, 16 :: int]) \<noteq> (case Some 3 of None \<Rightarrow> MODEL_LEN | Some d \<Rightarrow> d)"
    by simp
  have fits: "int (length [8, 16, 32 :: int]) = (case Some 3 of None \<Rightarrow> MODEL_LEN | Some d \<Rightarrow> d)
              \<and> length (input_shape ?self) = 1"
    by simp
  have range: "length (input_shape ?self) = 1 \<and>
      - (2 ^ 63) \<le> (case Some 3 of None \<Rightarrow> MODEL_LEN | Some d \<Rightarrow> d) \<and>
      (case Some 3 of None \<Rightarrow> MODEL_LEN | Some d \<Rightarrow> d) < (2::int) ^ 60"
    by simp
  have listed: "spec_mlp_stack (hd (input_shape ?self)) [8, 16, 32] (n_output_node ?self) =
        [StubDense 4 8, StubDropout1d MLP_DROPOUT_RATE, StubReLU,
         StubDense 8 16, StubDropout1d MLP_DROPOUT_RATE, StubReLU,
         StubDense 16 32, StubDropout1d MLP_DROPOUT_RATE, StubReLU,
         StubDense 32 10]"
    by simp
  have repeated: "spec_mlp_stack (hd (input_shape ?self))
          (replicate (nat (case Some 3 of None \<Rightarrow> MODEL_LEN | Some d \<Rightarrow> d)) 8)
          (n_output_node ?self) =
        [StubDense 4 8, StubDropout1d MLP_DROPOUT_RATE, StubReLU,
         StubDense 8 8, StubDropout1d MLP_DROPOUT_RATE, StubReLU,
         StubDense 8 8, StubDropout1d MLP_DROPOUT_RATE, StubReLU,
         StubDense 8 10]"
    by (simp add: numeral_3_eq_3)
  show ?thesis
    using mlp_width_length [of "[8, 16]" "Some 3" conventional ?self 8]
      mlp_width_length [of "[8, 16, 32]" "Some 3" conventional ?self 8]
      made short fits range
    unfolding listed repeated
    by blast
qed

text \<open>
  C9. In the DenseNet template, for every width argument, the first operator is the
  kernel-7 convolution whose filters are the width argument (64 when it is left out), and
  the second is a normalization over the fixed 64 features, whatever the width.
\<close>

theorem densenet_first_normalization_width:
  "DenseNetGenerator n shp = Inr self \<longrightarrow>
     (\<exists>g. DenseNetGenerator_generate R self depth width = Inr g \<and>
        take 2 (descriptors g) =
          [StubConv (ops self) (last shp)
             (case width of None \<Rightarrow> MODEL_WIDTH | Some w \<Rightarrow> w) 7 None None None,
           StubBatchNorm (ops self) 64])"
proof
  assume made: "DenseNetGenerator n shp = Inr self"
  then have facts: "input_shape self \<noteq> []" "input_shape self = shp"
      "num_init_features self = 64"
    using DenseNetGenerator_Inr by auto
  show "\<exists>g. DenseNetGenerator_generate R self depth width = Inr g \<and>
        take 2 (descriptors g) =
          [StubConv (ops self) (last shp)
             (case width of None \<Rightarrow> MODEL_WIDTH | Some w \<Rightarrow> w) 7 None None None,
           StubBatchNorm (ops self) 64]"
    using DenseNetGenerator_generate_ok [OF facts(1), of R depth width] facts(2,3)
    by auto
qed

text \<open>
  C9 on the input shape (32, 32, 3) with width 16: the convolution has 16 filters, the
  normalization after it is over 64 features.
\<close>

theorem densenet_first_normalization_width_witness:
  "DenseNetGenerator 10 [32, 32, 3] =
     Inr \<lparr>n_output_node = 10, input_shape = [32, 32, 3], n_dim = 2, ops = Rank2d,
          num_init_features = 64, growth_rate = 32, block_config = [6, 12, 24, 16],
          bn_size = 4, drop_rate = 0\<rparr> \<and>
   (\<exists>g. DenseNetGenerator_generate conventional
        \<lparr>n_output_node = 10, input_shape = [32, 32, 3], n_dim = 2, ops = Rank2d,
         num_init_features = 64, growth_rate = 32, block_config = [6, 12, 24, 16],
         bn_size = 4, drop_rate = 0\<rparr> None (Some 16) = Inr g \<and>
      take 2 (descriptors g) =
        [StubConv Rank2d 3 16 7 None None None, StubBatchNorm Rank2d 64])"
proof -
  let ?self = "\<lparr>n_output_node = 10, input_shape = [32, 32, 3], n_dim = 2, ops = Rank2d,
          num_init_features = 64, growth_rate = 32, block_config = [6, 12, 24, 16],
          bn_size = 4, drop_rate = 0\<rparr>"
  have made: "DenseNetGenerator 10 [32, 32, 3] = Inr ?self"
    by (simp add: DenseNetGenerator_def and_then_def resolve_def)
  show ?thesis
    using densenet_first_normalization_width
      [of 10 "[32, 32, 3]" ?self conventional None "Some 16"] made
    by simp
qed

text \<open>
  C10. \<^verbatim>\<open>MobileNetV2Generator.generate\<close> ignores its depth and width arguments: on the
  same generator, any two pairs of arguments (given or left out) give the same result,
  graph and generator state alike.
\<close>

theorem mobilenet_ignores_depth_and_width:
  "MobileNetV2Generator_generate R self depth width
     = MobileNetV2Generator_generate R self depth' width'"
  by (simp add: MobileNetV2Generator_generate_def)

end
